theory Spec2Isabelle
  imports Complex_Main
begin

section \<open>Strings and dictionaries\<close>

text \<open>
  A Python \<open>str\<close> is modelled as a \<open>string\<close> holding its UTF-8 bytes, so the
  Chinese labels of the alias table are three bytes per character.

  A Python \<open>dict\<close> is an association list in insertion order (the order
  \<open>items()\<close> iterates in); its keys are distinct.
\<close>

type_synonym 'v pydict = "(string \<times> 'v) list"

text \<open>\<open>d.get(k)\<close>: the value stored under exactly the key \<open>k\<close>, or \<open>None\<close>.\<close>

definition dict_get :: "'v pydict \<Rightarrow> string \<Rightarrow> 'v option" where
  "dict_get d k = map_of d k"

text \<open>\<open>d.get(k, default)\<close>.\<close>

definition dict_get_default :: "'v pydict \<Rightarrow> string \<Rightarrow> 'v \<Rightarrow> 'v" where
  "dict_get_default d k dflt = (case map_of d k of None \<Rightarrow> dflt | Some v \<Rightarrow> v)"

text \<open>
  \<open>d[k] = v\<close>: an existing key keeps its position and gets the new value, a new
  key goes to the end.
\<close>

fun dict_set :: "'v pydict \<Rightarrow> string \<Rightarrow> 'v \<Rightarrow> 'v pydict" where
  "dict_set [] k v = [(k, v)]"
| "dict_set ((k', v') # d) k v =
     (if k' = k then (k, v) # d else (k', v') # dict_set d k v)"

text \<open>
  \<open>str.lower()\<close>. The ASCII capitals are mapped to their small letters and every
  other byte is kept. On the alias table below this agrees with Python's Unicode
  \<open>lower()\<close>: the only non-ASCII character that lowers to an ASCII one is the
  Kelvin sign (to \<open>k\<close>), no alias contains a \<open>k\<close>, and no character lowers to
  one of the Chinese characters of the table.
\<close>

definition lower_char :: "char \<Rightarrow> char" where
  "lower_char c =
     (case map_of (zip ''ABCDEFGHIJKLMNOPQRSTUVWXYZ'' ''abcdefghijklmnopqrstuvwxyz'') c of
        None \<Rightarrow> c
      | Some l \<Rightarrow> l)"

definition lower :: "string \<Rightarrow> string" where
  "lower s = map lower_char s"

section \<open>Floating point\<close>

text \<open>
  A Python \<open>float\<close> is an IEEE 754 binary64 number. A finite one is modelled by the
  real number it denotes; the probabilities of an oracle reply are finite floats.
  Adding two floats gives the exact sum rounded to 53 significant bits, ties to the
  even significand, and an infinity when the rounded sum reaches \<open>2^1024\<close>. A sum
  below the normal range is a multiple of \<open>2^-1074\<close> with fewer than 53 bits, so
  rounding to 53 significant bits is right there too. No NaN arises: it would take
  two infinities of opposite sign, and every addend is finite.
\<close>

text \<open>The integer part of the binary logarithm of a positive number, rounded down and up.\<close>

fun ilog2 :: "nat \<Rightarrow> nat" where
  "ilog2 n = (if n < 2 then 0 else Suc (ilog2 (n div 2)))"

declare ilog2.simps [simp del]

definition clog2 :: "nat \<Rightarrow> nat" where
  "clog2 n = (if n \<le> 1 then 0 else Suc (ilog2 (n - 1)))"

text \<open>The binary exponent \<open>e\<close> of a non-zero real: \<open>2^e \<le> |x| < 2^(e+1)\<close>.\<close>

definition float_exponent :: "real \<Rightarrow> int" where
  "float_exponent x =
     (if 1 \<le> \<bar>x\<bar> then int (ilog2 (nat \<lfloor>\<bar>x\<bar>\<rfloor>))
      else - int (clog2 (nat \<lceil>1 / \<bar>x\<bar>\<rceil>)))"

definition round_half_even :: "real \<Rightarrow> int" where
  "round_half_even q =
     (let f = \<lfloor>q\<rfloor>; d = q - of_int f
      in if d < 1 / 2 then f
         else if 1 / 2 < d then f + 1
         else if even f then f else f + 1)"

text \<open>
  Rounding to 53 significant bits. This is also how Python reads a decimal literal:
  the float written \<open>0.3\<close> is \<open>round_double 0.3\<close>. The probabilities of a
  reply are floats, that is, values that \<open>round_double\<close> leaves as they are;
  where an example adds several of them they are written \<open>round_double 0.3\<close>.
\<close>

definition round_double :: "real \<Rightarrow> real" where
  "round_double x =
     (if x = 0 then 0
      else
        let ulp = 2 powi (float_exponent x - 52)
        in of_int (round_half_even (x / ulp)) * ulp)"

datatype pyfloat = Finite real | PlusInf | MinusInf

text \<open>\<open>a + b\<close> for a float \<open>a\<close> and a finite float \<open>b\<close>.\<close>

fun float_add :: "pyfloat \<Rightarrow> real \<Rightarrow> pyfloat" where
  "float_add (Finite a) b =
     (let r = round_double (a + b)
      in if 2 ^ 1024 \<le> r then PlusInf
         else if r \<le> - (2 ^ 1024) then MinusInf
         else Finite r)"
| "float_add PlusInf b = PlusInf"
| "float_add MinusInf b = MinusInf"

text \<open>\<open>a > c\<close> for a float \<open>a\<close> and a finite constant \<open>c\<close>.\<close>

fun float_gt :: "pyfloat \<Rightarrow> real \<Rightarrow> bool" where
  "float_gt (Finite a) c = (c < a)"
| "float_gt PlusInf c = True"
| "float_gt MinusInf c = False"

section \<open>Type aliases (recommend.py, lines 18--25)\<close>

text \<open>The six Chinese labels, as UTF-8.\<close>

definition zh_chuan :: string where
  "zh_chuan = [CHR 0xE4, CHR 0xB8, CHR 0xB2]"

definition zh_tiao :: string where
  "zh_tiao = [CHR 0xE8, CHR 0xB7, CHR 0xB3]"

definition zh_qiangshuang :: string where
  "zh_qiangshuang = [CHR 0xE5, CHR 0xBC, CHR 0xBA, CHR 0xE5, CHR 0x8F, CHR 0x8C]"

definition zh_keji :: string where
  "zh_keji = [CHR 0xE7, CHR 0xA7, CHR 0x91, CHR 0xE6, CHR 0x8A, CHR 0x80]"

definition zh_qita :: string where
  "zh_qita = [CHR 0xE5, CHR 0x85, CHR 0xB6, CHR 0xE4, CHR 0xBB, CHR 0x96]"

definition zh_qita2 :: string where
  "zh_qita2 = [CHR 0xE5, CHR 0x85, CHR 0xB6, CHR 0xE5, CHR 0xAE, CHR 0x83]"

definition TYPE_ALIASES :: "string pydict" where
  "TYPE_ALIASES =
     [(zh_chuan, ''stream''), (''stream'', ''stream''),
      (zh_tiao, ''jump''), (''jump'', ''jump''), (''aim'', ''jump''),
      (zh_qiangshuang, ''alt''), (''alt'', ''alt''),
      (zh_keji, ''tech''), (''tech'', ''tech''),
      (zh_qita, ''others''), (zh_qita2, ''others''), (''others'', ''others'')]"

definition VALID_TYPES :: "string set" where
  "VALID_TYPES = set (map snd TYPE_ALIASES)"

section \<open>The oracle's analysis (recommend.py, lines 111--136)\<close>

text \<open>
  The normalising loop of \<open>get_oracle_analysis_results\<close> (lines 123--127), with the
  dictionary \<open>normalized_probs\<close> as accumulator. The sum of line 127 is a float
  addition; its left operand is the entry so far, or the integer 0, which Python
  converts to the float zero.
\<close>

fun normalize_loop :: "real pydict \<Rightarrow> pyfloat pydict \<Rightarrow> pyfloat pydict" where
  "normalize_loop [] normalized_probs = normalized_probs"
| "normalize_loop ((key, prob) # rest) normalized_probs =
     (let normalized_key = dict_get_default TYPE_ALIASES (lower key) (lower key)
      in if normalized_key \<in> VALID_TYPES
         then normalize_loop rest
                (dict_set normalized_probs normalized_key
                   (float_add (dict_get_default normalized_probs normalized_key (Finite 0))
                      prob))
         else normalize_loop rest normalized_probs)"

definition normalize_probs :: "real pydict \<Rightarrow> pyfloat pydict" where
  "normalize_probs raw_probs = normalize_loop raw_probs []"

text \<open>
  The deciding loop (lines 132--136): the first type, in iteration order, whose
  probability is greater than 0.5, and \<open>others\<close> when there is none.
\<close>

fun determine_type :: "pyfloat pydict \<Rightarrow> string" where
  "determine_type [] = ''others''"
| "determine_type ((type_name, probability) # rest) =
     (if float_gt probability 0.5 then type_name else determine_type rest)"

text \<open>
  \<open>get_oracle_analysis_results\<close>, applied to what \<open>get_oracle_classification\<close>
  returned: \<open>None\<close> when the service failed, a dictionary (possibly empty) otherwise.
\<close>

definition get_oracle_analysis_results ::
  "real pydict option \<Rightarrow> real pydict option \<times> string" where
  "get_oracle_analysis_results oracle_reply =
     (case oracle_reply of
        None \<Rightarrow> (None, ''others'')
      | Some raw_probs \<Rightarrow>
          if raw_probs = [] then (Some raw_probs, ''others'')
          else
            let normalized_probs = normalize_probs raw_probs
            in if normalized_probs = [] then (Some raw_probs, ''others'')
               else (Some raw_probs, determine_type normalized_probs))"

section \<open>The relational store\<close>

text \<open>
  The rows hold the columns the SQL statements of the source name. The table
  definitions themselves are not part of the source; the keys are taken from the data
  contract: \<open>bid\<close> is the primary key of BeatmapAnalysis (a map from \<open>bid\<close> to the
  row) and the unique key of PendingBeatmapReviews (kept as a list of rows, so that
  the number of rows per \<open>bid\<close> is something to prove). \<open>is_auto_typed\<close> is a boolean
  column, \<open>determined_b_type\<close> is not nullable. Timestamps are natural numbers.
\<close>

record analysis_row =
  determined_b_type :: string
  is_auto_typed :: bool
  stream_prob :: "real option"
  jump_prob :: "real option"
  alt_prob :: "real option"
  tech_prob :: "real option"
  oracle_last_run_at :: "nat option"
  manual_review_at :: "nat option"
  reviewed_by_admin_id :: "string option"

record pending_row =
  pending_bid :: nat
  reason_for_pending :: string
  triggered_by_recommendation_id :: "nat option"
  added_to_queue_at :: nat

record recommendation_row =
  recommendation_id :: nat
  rec_qqid :: nat
  rec_bid :: nat
  osu_username_at_recommend_time :: "string option"
  user_requested_type :: "string option"
  actual_recommend_type :: string
  recommendation_description :: string
  recommended_at :: nat

record store =
  BeatmapInfo :: "nat \<rightharpoonup> string pydict"
  BeatmapAnalysis :: "nat \<rightharpoonup> analysis_row"
  PendingBeatmapReviews :: "pending_row list"
  Recommendations :: "recommendation_row list"

text \<open>
  Every helper opens its own connection. \<open>get_db_connection\<close> may return \<open>None\<close>
  (\<open>NoConnection\<close>) and a statement may raise \<open>MySQLError\<close> (\<open>QueryError\<close>); which of
  the two happens, if any, is an input of the model.
\<close>

datatype db_fault = DbOk | NoConnection | QueryError

subsection \<open>Writers of recommend.py\<close>

text \<open>
  \<open>fetch_and_store_beatmap_info\<close> (lines 64--109), applied to the reply of
  \<open>get_official_beatmap_info\<close>. The reply is a JSON object, kept here as a
  dictionary of texts; \<open>not official_info\<close> holds for \<open>None\<close> and for the empty
  dictionary. The row written to BeatmapInfo is kept as the reply itself.
\<close>

definition fetch_and_store_beatmap_info ::
  "string pydict option \<Rightarrow> db_fault \<Rightarrow> nat \<Rightarrow> store \<Rightarrow> string pydict option \<times> store" where
  "fetch_and_store_beatmap_info api_reply fault bid db =
     (case api_reply of
        None \<Rightarrow> (None, db)
      | Some official_info \<Rightarrow>
          if official_info = [] then (None, db)
          else if fault \<noteq> DbOk then (Some official_info, db)
          else (Some official_info,
                db\<lparr>BeatmapInfo := (BeatmapInfo db)(bid \<mapsto> official_info)\<rparr>))"

text \<open>
  \<open>store_beatmap_analysis\<close> (lines 138--170): \<open>INSERT ... ON DUPLICATE KEY UPDATE\<close>.
  On an existing row the type and the flag are assigned under
  \<open>IF(is_auto_typed = 1, VALUES(...), ...)\<close>, the four probabilities and the run time
  unconditionally. The probabilities are read from \<open>probs or {}\<close> by the keys
  \<open>stream\<close>, \<open>jump\<close>, \<open>alt\<close>, \<open>tech\<close>.
\<close>

definition store_beatmap_analysis ::
  "db_fault \<Rightarrow> nat \<Rightarrow> nat \<Rightarrow> real pydict option \<Rightarrow> string \<Rightarrow> bool \<Rightarrow> store \<Rightarrow> store" where
  "store_beatmap_analysis fault now bid probs determined_type auto_typed db =
     (if fault \<noteq> DbOk then db
      else
        let p = (case probs of None \<Rightarrow> [] | Some d \<Rightarrow> d);
            run_at = (if probs \<noteq> None then Some now else None)
        in case BeatmapAnalysis db bid of
             None \<Rightarrow>
               db\<lparr>BeatmapAnalysis := (BeatmapAnalysis db)(bid \<mapsto>
                 \<lparr>determined_b_type = determined_type,
                  is_auto_typed = auto_typed,
                  stream_prob = dict_get p ''stream'',
                  jump_prob = dict_get p ''jump'',
                  alt_prob = dict_get p ''alt'',
                  tech_prob = dict_get p ''tech'',
                  oracle_last_run_at = run_at,
                  manual_review_at = None,
                  reviewed_by_admin_id = None\<rparr>)\<rparr>
           | Some row \<Rightarrow>
               db\<lparr>BeatmapAnalysis := (BeatmapAnalysis db)(bid \<mapsto>
                 row\<lparr>determined_b_type :=
                       (if is_auto_typed row then determined_type else determined_b_type row),
                     is_auto_typed :=
                       (if is_auto_typed row then auto_typed else is_auto_typed row),
                     stream_prob := dict_get p ''stream'',
                     jump_prob := dict_get p ''jump'',
                     alt_prob := dict_get p ''alt'',
                     tech_prob := dict_get p ''tech'',
                     oracle_last_run_at := run_at\<rparr>)\<rparr>)"

text \<open>
  \<open>store_beatmap_analysis_probabilities_only\<close> (lines 172--190):
  \<open>UPDATE ... WHERE bid = %s AND is_auto_typed = 0\<close>.
\<close>

definition store_beatmap_analysis_probabilities_only ::
  "db_fault \<Rightarrow> nat \<Rightarrow> nat \<Rightarrow> real pydict \<Rightarrow> store \<Rightarrow> store" where
  "store_beatmap_analysis_probabilities_only fault now bid probs db =
     (if fault \<noteq> DbOk then db
      else
        case BeatmapAnalysis db bid of
          None \<Rightarrow> db
        | Some row \<Rightarrow>
            if is_auto_typed row then db
            else
              db\<lparr>BeatmapAnalysis := (BeatmapAnalysis db)(bid \<mapsto>
                row\<lparr>stream_prob := dict_get probs ''stream'',
                    jump_prob := dict_get probs ''jump'',
                    alt_prob := dict_get probs ''alt'',
                    tech_prob := dict_get probs ''tech'',
                    oracle_last_run_at := Some now\<rparr>)\<rparr>)"

text \<open>
  \<open>add_to_pending_review\<close> (lines 192--210): \<open>INSERT ... ON DUPLICATE KEY UPDATE\<close>
  on PendingBeatmapReviews. The row with the same \<open>bid\<close>, if there is one, gets the
  new reason, back-reference and time; otherwise the new row is added.
\<close>

fun upsert_pending :: "pending_row \<Rightarrow> pending_row list \<Rightarrow> pending_row list" where
  "upsert_pending new [] = [new]"
| "upsert_pending new (r # rs) =
     (if pending_bid r = pending_bid new
      then r\<lparr>reason_for_pending := reason_for_pending new,
             triggered_by_recommendation_id := triggered_by_recommendation_id new,
             added_to_queue_at := added_to_queue_at new\<rparr> # rs
      else r # upsert_pending new rs)"

definition add_to_pending_review ::
  "db_fault \<Rightarrow> nat \<Rightarrow> nat \<Rightarrow> string \<Rightarrow> nat option \<Rightarrow> store \<Rightarrow> store" where
  "add_to_pending_review fault now bid reason recommendation db =
     (if fault \<noteq> DbOk then db
      else
        db\<lparr>PendingBeatmapReviews :=
             upsert_pending
               \<lparr>pending_bid = bid, reason_for_pending = reason,
                triggered_by_recommendation_id = recommendation,
                added_to_queue_at = now\<rparr>
               (PendingBeatmapReviews db)\<rparr>)"

text \<open>
  \<open>store_recommendation\<close> (lines 212--233): appends a row and returns
  \<open>cursor.lastrowid\<close>, or returns \<open>None\<close>. The generated ids are taken to be
  consecutive.
\<close>

definition store_recommendation ::
  "db_fault \<Rightarrow> nat \<Rightarrow> nat \<Rightarrow> nat \<Rightarrow> string option \<Rightarrow> string option \<Rightarrow> string \<Rightarrow> string
     \<Rightarrow> store \<Rightarrow> nat option \<times> store" where
  "store_recommendation fault now qqid bid osu_username user_req_type actual_rec_type description db =
     (if fault \<noteq> DbOk then (None, db)
      else
        let lastrowid = Suc (length (Recommendations db))
        in (Some lastrowid,
            db\<lparr>Recommendations := Recommendations db @
                 [\<lparr>recommendation_id = lastrowid, rec_qqid = qqid, rec_bid = bid,
                   osu_username_at_recommend_time = osu_username,
                   user_requested_type = user_req_type,
                   actual_recommend_type = actual_rec_type,
                   recommendation_description = description,
                   recommended_at = now\<rparr>]\<rparr>))"

section \<open>The recommend command (recommend.py, lines 271--426)\<close>

text \<open>
  What one invocation gets from outside: the binding row of the caller, the most
  recently played beatmap, the replies of the metadata service and of the oracle
  (\<open>None\<close> when the call failed), the clock, and the database fault, if any, met by
  each helper. One clock value stands for every \<open>datetime.now()\<close> of the invocation.
\<close>

record binding =
  osu_uid :: nat
  osu_username_at_bind :: "string option"

record recommend_env =
  binding_info :: "binding option"
  recent_beatmap_id :: "nat option"
  official_reply :: "string pydict option"
  oracle_reply :: "real pydict option"
  clock :: nat
  info_fault :: db_fault
  check_fault :: db_fault
  probs_fault :: db_fault
  pending_fault :: db_fault
  analysis_fault :: db_fault
  recommendation_fault :: db_fault

text \<open>
  The messages appended to \<open>additional_messages\<close>, one constructor per message of
  the source, carrying the types the text interpolates (lines 335, 347, 349, 353
  and 358).
\<close>

datatype advisory =
    AdminFixedType string string
  | UserSetType string
  | OracleDisagrees string
  | OracleFailedWithUserType
  | OracleFailedProvisionalOthers

record reply =
  final_determined_b_type_for_db :: string
  reply_recommend_type :: string
  additional_messages :: "advisory list"
  reply_recommendation_id :: nat

text \<open>
  How an invocation ends: with one of the \<open>finish\<close> messages (no binding, no beatmap
  found, no official information), with the exception of the unguarded
  \<open>SELECT\<close> of lines 319--325, with the message that the recommendation could not be
  stored, or with the recorded recommendation.
\<close>

datatype outcome =
    NotBound
  | NoBeatmapFound
  | MetadataUnavailable
  | Crashed
  | RecordFailed
  | Recorded reply

text \<open>Truth values of Python: \<open>None\<close>, the empty string, the empty dictionary and 0 are false.\<close>

definition truthy_str :: "string option \<Rightarrow> string option" where
  "truthy_str s = (case s of None \<Rightarrow> None | Some t \<Rightarrow> if t = [] then None else Some t)"

definition truthy_int :: "nat option \<Rightarrow> nat option" where
  "truthy_int n = (case n of None \<Rightarrow> None | Some k \<Rightarrow> if k = 0 then None else Some k)"

definition falsy_dict :: "'v pydict option \<Rightarrow> bool" where
  "falsy_dict d = (case d of None \<Rightarrow> True | Some kvs \<Rightarrow> kvs = [])"

text \<open>The reason texts of lines 350, 352, 359 and 361.\<close>

definition mismatch_reason :: "string \<Rightarrow> string \<Rightarrow> string" where
  "mismatch_reason user_specified_type oracle_determined_type =
     ''User specified '' @ [CHR 0x27] @ user_specified_type @ [CHR 0x27] @
     '', oracle: '' @ [CHR 0x27] @ oracle_determined_type @ [CHR 0x27]"

definition oracle_failed_user_specified_type :: string where
  "oracle_failed_user_specified_type = ''oracle_failed_user_specified_type''"

definition oracle_ambiguous_or_failed_no_user_type :: string where
  "oracle_ambiguous_or_failed_no_user_type = ''oracle_ambiguous_or_failed_no_user_type''"

definition oracle_ambiguous_result :: string where
  "oracle_ambiguous_result = ''oracle_ambiguous_result''"

text \<open>
  Lines 331--342, the branch \<open>not is_auto_typed_in_db\<close>: the row read from the
  database is manual. The result is \<open>final_determined_b_type_for_db\<close>,
  \<open>actual_recommend_type\<close>, the messages and the store.
\<close>

definition manual_branch ::
  "recommend_env \<Rightarrow> nat \<Rightarrow> string option \<Rightarrow> real pydict option \<Rightarrow> string \<Rightarrow> store
     \<Rightarrow> string \<times> string \<times> advisory list \<times> store" where
  "manual_branch env final_bid user_specified_type raw_oracle_probabilities db_determined_b_type db =
     (let (actual_recommend_type, messages) =
            (case truthy_str user_specified_type of
               Some user_type \<Rightarrow>
                 (user_type,
                  if user_type \<noteq> db_determined_b_type
                  then [AdminFixedType db_determined_b_type user_type] else [])
             | None \<Rightarrow> (db_determined_b_type, []));
          db' = (case raw_oracle_probabilities of
                   Some probs \<Rightarrow>
                     store_beatmap_analysis_probabilities_only
                       (probs_fault env) (clock env) final_bid probs db
                 | None \<Rightarrow> db)
      in (db_determined_b_type, actual_recommend_type, messages, db'))"

text \<open>Lines 344--362, the branch taken when no manual row was read.\<close>

definition auto_branch ::
  "recommend_env \<Rightarrow> nat \<Rightarrow> string option \<Rightarrow> real pydict option \<Rightarrow> string \<Rightarrow> store
     \<Rightarrow> string \<times> string \<times> advisory list \<times> store" where
  "auto_branch env final_bid user_specified_type raw_oracle_probabilities oracle_determined_type db =
     (let (actual_recommend_type, messages, db') =
            (case truthy_str user_specified_type of
               Some user_type \<Rightarrow>
                 if oracle_determined_type \<noteq> [] \<and> user_type \<noteq> oracle_determined_type
                 then (user_type,
                       [UserSetType user_type, OracleDisagrees oracle_determined_type],
                       add_to_pending_review (pending_fault env) (clock env) final_bid
                         (mismatch_reason user_type oracle_determined_type) None db)
                 else if falsy_dict raw_oracle_probabilities
                 then (user_type,
                       [UserSetType user_type, OracleFailedWithUserType],
                       add_to_pending_review (pending_fault env) (clock env) final_bid
                         oracle_failed_user_specified_type None db)
                 else (user_type, [UserSetType user_type], db)
             | None \<Rightarrow>
                 if falsy_dict raw_oracle_probabilities
                 then (oracle_determined_type,
                       [OracleFailedProvisionalOthers],
                       add_to_pending_review (pending_fault env) (clock env) final_bid
                         oracle_ambiguous_or_failed_no_user_type None db)
                 else if oracle_determined_type = ''others''
                 then (oracle_determined_type, [],
                       add_to_pending_review (pending_fault env) (clock env) final_bid
                         oracle_ambiguous_result None db)
                 else (oracle_determined_type, [], db))
      in (actual_recommend_type, actual_recommend_type, messages,
          store_beatmap_analysis (analysis_fault env) (clock env) final_bid
            raw_oracle_probabilities actual_recommend_type True db'))"

text \<open>
  Sections 3 to 5 of the handler (lines 296--373), for the beatmap \<open>final_bid\<close>:
  fetch the two signals, read the existing row, take one of the two branches, store
  the recommendation. Lines 311--312 do nothing, since the type returned by
  \<open>get_oracle_analysis_results\<close> is never \<open>None\<close>. The reply text of section 6
  is not modelled; its ingredients are in the \<open>reply\<close>.
\<close>

definition resolve_and_record ::
  "recommend_env \<Rightarrow> nat \<Rightarrow> binding \<Rightarrow> string option \<Rightarrow> nat \<Rightarrow> string \<Rightarrow> store
     \<Rightarrow> outcome \<times> store" where
  "resolve_and_record env qqid binding_row user_specified_type final_bid description_from_arg db =
     (let (official_beatmap_data, db1) =
            fetch_and_store_beatmap_info (official_reply env) (info_fault env) final_bid db;
          (raw_oracle_probabilities, oracle_determined_type) =
            get_oracle_analysis_results (oracle_reply env)
      in case official_beatmap_data of
           None \<Rightarrow> (MetadataUnavailable, db1)
         | Some _ \<Rightarrow>
             if check_fault env = QueryError then (Crashed, db1)
             else
               let existing_analysis_info =
                     (if check_fault env = NoConnection then None
                      else BeatmapAnalysis db1 final_bid);
                   (final_type, actual_recommend_type, messages, db2) =
                     (case existing_analysis_info of
                        None \<Rightarrow>
                          auto_branch env final_bid user_specified_type
                            raw_oracle_probabilities oracle_determined_type db1
                      | Some row \<Rightarrow>
                          if is_auto_typed row
                          then auto_branch env final_bid user_specified_type
                                 raw_oracle_probabilities oracle_determined_type db1
                          else manual_branch env final_bid user_specified_type
                                 raw_oracle_probabilities (determined_b_type row) db1)
               in (case store_recommendation (recommendation_fault env) (clock env) qqid
                          final_bid (osu_username_at_bind binding_row) user_specified_type
                          actual_recommend_type description_from_arg db2 of
                     (None, db3) \<Rightarrow> (RecordFailed, db3)
                   | (Some rid, db3) \<Rightarrow>
                       (Recorded \<lparr>final_determined_b_type_for_db = final_type,
                                  reply_recommend_type = actual_recommend_type,
                                  additional_messages = messages,
                                  reply_recommendation_id = rid\<rparr>, db3)))"

text \<open>
  The whole handler, on the parsed arguments (type, beatmap id and description, as
  \<open>parse_recommend_args\<close> returns them).
\<close>

definition handle_recommend_command ::
  "recommend_env \<Rightarrow> nat \<Rightarrow> string option \<Rightarrow> nat option \<Rightarrow> string \<Rightarrow> store
     \<Rightarrow> outcome \<times> store" where
  "handle_recommend_command env qqid user_specified_type bid_from_arg description_from_arg db =
     (case binding_info env of
        None \<Rightarrow> (NotBound, db)
      | Some binding_row \<Rightarrow>
          (case (case truthy_int bid_from_arg of
                   Some b \<Rightarrow> Some b
                 | None \<Rightarrow> truthy_int (recent_beatmap_id env)) of
             None \<Rightarrow> (NoBeatmapFound, db)
           | Some final_bid \<Rightarrow>
               resolve_and_record env qqid binding_row user_specified_type final_bid
                 description_from_arg db))"

text \<open>A sequence of invocations, each with its own environment and arguments.\<close>

record recommend_call =
  call_env :: recommend_env
  call_qqid :: nat
  call_type :: "string option"
  call_bid :: "nat option"
  call_description :: string

fun run_recommend_commands :: "recommend_call list \<Rightarrow> store \<Rightarrow> store" where
  "run_recommend_commands [] db = db"
| "run_recommend_commands (c # cs) db =
     run_recommend_commands cs
       (snd (handle_recommend_command (call_env c) (call_qqid c) (call_type c) (call_bid c)
               (call_description c) db))"

section \<open>The administrator's command (admin_tool.py)\<close>

text \<open>
  \<open>update_beatmap_classification\<close> (lines 46--76) runs on one connection with
  autocommit off: the \<open>SELECT\<close>, the \<open>UPDATE\<close> and the \<open>DELETE\<close> work on the
  transaction's copy, \<open>commit\<close> installs it, and every \<open>MySQLError\<close> leads to
  \<open>rollback\<close>. Where the connection or a statement fails is an input.
\<close>

datatype txn_fault =
    TxOk | TxNoConnection | TxSelectFails | TxUpdateFails | TxDeleteFails | TxCommitFails

definition update_beatmap_classification ::
  "txn_fault \<Rightarrow> nat \<Rightarrow> nat \<Rightarrow> string \<Rightarrow> string \<Rightarrow> store \<Rightarrow> bool \<times> store" where
  "update_beatmap_classification fault now bid new_type admin_id db =
     (if fault = TxNoConnection then (False, db)
      else if fault = TxSelectFails then (False, db)
      else
        case BeatmapAnalysis db bid of
          None \<Rightarrow> (False, db)
        | Some row \<Rightarrow>
            if fault = TxUpdateFails then (False, db)
            else
              let tx1 = db\<lparr>BeatmapAnalysis := (BeatmapAnalysis db)(bid \<mapsto>
                          row\<lparr>determined_b_type := new_type,
                              is_auto_typed := False,
                              manual_review_at := Some now,
                              reviewed_by_admin_id := Some admin_id\<rparr>)\<rparr>
              in if fault = TxDeleteFails then (False, db)
                 else
                   let tx2 = tx1\<lparr>PendingBeatmapReviews :=
                               filter (\<lambda>r. pending_bid r \<noteq> bid) (PendingBeatmapReviews tx1)\<rparr>
                   in if fault = TxCommitFails then (False, db)
                      else (True, tx2))"

text \<open>\<open>get_beatmap_analysis_info\<close> (lines 31--44).\<close>

definition get_beatmap_analysis_info ::
  "db_fault \<Rightarrow> nat \<Rightarrow> store \<Rightarrow> (nat \<times> string \<times> bool) option" where
  "get_beatmap_analysis_info fault bid db =
     (if fault \<noteq> DbOk then None
      else map_option (\<lambda>row. (bid, determined_b_type row, is_auto_typed row))
             (BeatmapAnalysis db bid))"

text \<open>
  The branch \<open>/pending [bid] [type]\<close> of \<open>handle_pending_command\<close> (lines 112--132),
  after the beatmap id has been read as a number.
\<close>

datatype pending_outcome = InvalidType | NotFound | Processed string | ProcessFailed

definition handle_pending_command ::
  "db_fault \<Rightarrow> txn_fault \<Rightarrow> nat \<Rightarrow> nat \<Rightarrow> string \<Rightarrow> string \<Rightarrow> store
     \<Rightarrow> pending_outcome \<times> store" where
  "handle_pending_command lookup_fault fault now bid raw_new_type admin_id db =
     (case dict_get TYPE_ALIASES (lower raw_new_type) of
        None \<Rightarrow> (InvalidType, db)
      | Some new_type \<Rightarrow>
          if new_type = [] \<or> new_type \<notin> VALID_TYPES then (InvalidType, db)
          else if get_beatmap_analysis_info lookup_fault bid db = None then (NotFound, db)
          else
            (case update_beatmap_classification fault now bid new_type admin_id db of
               (True, db') \<Rightarrow> (Processed new_type, db')
             | (False, db') \<Rightarrow> (ProcessFailed, db')))"

section \<open>Notions used in the statements\<close>

text \<open>What the catalogue says about a beatmap: its type and whether the type is automatic.\<close>

definition classification_of :: "store \<Rightarrow> nat \<Rightarrow> (string \<times> bool) option" where
  "classification_of db b =
     map_option (\<lambda>row. (determined_b_type row, is_auto_typed row)) (BeatmapAnalysis db b)"

text \<open>
  Concrete inputs: a bound caller, a non-empty reply of the metadata service, an
  environment in which the database never fails and the oracle answers \<open>reply\<close>,
  the empty store, and a store in which beatmap 42 was classified by an
  administrator as tech.
\<close>

definition some_binding :: binding where
  "some_binding = \<lparr>osu_uid = 1, osu_username_at_bind = Some ''player''\<rparr>"

definition some_official :: "string pydict" where
  "some_official = [(''version'', ''Insane'')]"

definition healthy_env :: "real pydict option \<Rightarrow> recommend_env" where
  "healthy_env reply =
     \<lparr>binding_info = Some some_binding, recent_beatmap_id = None,
      official_reply = Some some_official, oracle_reply = reply, clock = 100,
      info_fault = DbOk, check_fault = DbOk, probs_fault = DbOk, pending_fault = DbOk,
      analysis_fault = DbOk, recommendation_fault = DbOk\<rparr>"

definition empty_store :: store where
  "empty_store =
     \<lparr>BeatmapInfo = Map.empty, BeatmapAnalysis = Map.empty,
      PendingBeatmapReviews = [], Recommendations = []\<rparr>"

definition tech_row :: analysis_row where
  "tech_row =
     \<lparr>determined_b_type = ''tech'', is_auto_typed = False,
      stream_prob = None, jump_prob = None, alt_prob = None, tech_prob = None,
      oracle_last_run_at = None, manual_review_at = Some 50,
      reviewed_by_admin_id = Some ''admin''\<rparr>"

definition manual_store :: store where
  "manual_store = empty_store\<lparr>BeatmapAnalysis := [42 \<mapsto> tech_row]\<rparr>"

definition others_row :: analysis_row where
  "others_row =
     \<lparr>determined_b_type = ''others'', is_auto_typed = True,
      stream_prob = None, jump_prob = None, alt_prob = None, tech_prob = None,
      oracle_last_run_at = None, manual_review_at = None,
      reviewed_by_admin_id = None\<rparr>"

text \<open>Beatmap 42 classified automatically as others and waiting in the review queue.\<close>

definition queued_store :: store where
  "queued_store =
     empty_store\<lparr>BeatmapAnalysis := [42 \<mapsto> others_row],
                 PendingBeatmapReviews :=
                   [\<lparr>pending_bid = 42, reason_for_pending = oracle_ambiguous_result,
                     triggered_by_recommendation_id = None, added_to_queue_at = 90\<rparr>]\<rparr>"

section \<open>The rounding\<close>

text \<open>
  The exponent is the one of the binade the number lies in, and the rounded value is
  within half a unit in the last place of the number.
\<close>

lemma ilog2_bounds: "0 < n \<Longrightarrow> 2 ^ ilog2 n \<le> n \<and> n < 2 ^ Suc (ilog2 n)"
proof (induction n rule: ilog2.induct)
  case (1 n)
  show ?case
  proof (cases "n < 2")
    case True
    with 1(2) have "n = 1" by simp
    then show ?thesis by (simp add: ilog2.simps)
  next
    case False
    then have pos: "0 < n div 2" by simp
    from 1(1) [OF False pos] have
      lo: "2 ^ ilog2 (n div 2) \<le> n div 2" and hi: "n div 2 < 2 ^ Suc (ilog2 (n div 2))"
      by simp_all
    have e: "ilog2 n = Suc (ilog2 (n div 2))"
      using False by (subst ilog2.simps) simp
    from lo have "2 * 2 ^ ilog2 (n div 2) \<le> n" by simp
    moreover from hi have "n < 2 * 2 ^ Suc (ilog2 (n div 2))" by simp
    ultimately show ?thesis
      by (simp add: e)
  qed
qed

lemma clog2_bounds: "1 < n \<Longrightarrow> 2 ^ clog2 n \<ge> n \<and> n > 2 ^ (clog2 n - 1)"
proof -
  assume n: "1 < n"
  then have pos: "0 < n - 1" by simp
  from ilog2_bounds [OF pos] have lo: "2 ^ ilog2 (n - 1) \<le> n - 1"
    and hi: "n - 1 < 2 ^ Suc (ilog2 (n - 1))" by simp_all
  have c: "clog2 n = Suc (ilog2 (n - 1))"
    using n by (simp add: clog2_def)
  from lo n have "2 ^ ilog2 (n - 1) < n" by simp
  moreover from hi have "n \<le> 2 ^ Suc (ilog2 (n - 1))" by simp
  ultimately show ?thesis by (simp add: c)
qed

lemma float_exponent_bounds:
  assumes "x \<noteq> 0"
  shows "2 powi float_exponent x \<le> \<bar>x\<bar> \<and> \<bar>x\<bar> < 2 powi (float_exponent x + 1)"
proof (cases "1 \<le> \<bar>x\<bar>")
  case True
  let ?n = "nat \<lfloor>\<bar>x\<bar>\<rfloor>"
  let ?k = "ilog2 ?n"
  from True have fl: "1 \<le> \<lfloor>\<bar>x\<bar>\<rfloor>" by linarith
  then have pos: "0 < ?n" by simp
  from ilog2_bounds [OF pos] have lo: "2 ^ ?k \<le> ?n" and hi: "Suc ?n \<le> 2 ^ Suc ?k"
    by simp_all
  have n: "real ?n = of_int \<lfloor>\<bar>x\<bar>\<rfloor>"
    using fl by simp
  from lo have "(2::real) ^ ?k \<le> real ?n"
    by (metis of_nat_le_iff of_nat_numeral of_nat_power)
  then have l: "(2::real) ^ ?k \<le> \<bar>x\<bar>"
    unfolding n by linarith
  from hi have "real (Suc ?n) \<le> (2::real) ^ Suc ?k"
    by (metis of_nat_le_iff of_nat_numeral of_nat_power)
  then have h: "\<bar>x\<bar> < (2::real) ^ Suc ?k"
    using n by (simp del: power_Suc) linarith
  have e: "float_exponent x = int ?k"
    using True by (simp add: float_exponent_def)
  have e1: "float_exponent x + 1 = int (Suc ?k)"
    using e by simp
  show ?thesis
    unfolding e1 unfolding e power_int_of_nat using l h by blast
next
  case False
  let ?y = "1 / \<bar>x\<bar>"
  let ?m = "nat \<lceil>?y\<rceil>"
  let ?c = "clog2 ?m"
  from False assms have small: "0 < \<bar>x\<bar>" "\<bar>x\<bar> < 1" by simp_all
  then have y1: "1 < ?y" by simp
  then have ce: "2 \<le> \<lceil>?y\<rceil>" by linarith
  then have m1: "1 < ?m" by simp
  from clog2_bounds [OF m1] have up: "?m \<le> 2 ^ ?c" and lo: "2 ^ (?c - 1) < ?m"
    by simp_all
  have cpos: "0 < ?c"
    using m1 by (simp add: clog2_def)
  have m: "real ?m = of_int \<lceil>?y\<rceil>"
    using ce by simp
  from up have "real ?m \<le> (2::real) ^ ?c"
    by (metis of_nat_le_iff of_nat_numeral of_nat_power)
  then have yle: "?y \<le> (2::real) ^ ?c"
    unfolding m by linarith
  from lo have "Suc (2 ^ (?c - 1)) \<le> ?m" by (rule Suc_leI)
  then have "real (Suc (2 ^ (?c - 1))) \<le> real ?m"
    by (metis of_nat_le_iff)
  then have "(2::real) ^ (?c - 1) + 1 \<le> of_int \<lceil>?y\<rceil>"
    unfolding m by simp
  then have ygt: "(2::real) ^ (?c - 1) < ?y"
    by linarith
  have e: "float_exponent x = - int ?c"
    using False by (simp add: float_exponent_def)
  have p1: "(2::real) powi (- int ?c) = 1 / 2 ^ ?c"
    by (simp only: power_int_minus power_int_of_nat inverse_eq_divide)
  have eq: "- int ?c + 1 = - int (?c - 1)"
    using cpos by simp
  have p2: "(2::real) powi (- int ?c + 1) = 1 / 2 ^ (?c - 1)"
    unfolding eq by (simp only: power_int_minus power_int_of_nat inverse_eq_divide)
  from yle small have l: "1 / 2 ^ ?c \<le> \<bar>x\<bar>"
    by (simp add: field_simps)
  from ygt small have h: "\<bar>x\<bar> < 1 / 2 ^ (?c - 1)"
    by (simp add: field_simps)
  show ?thesis
    unfolding e p1 p2 using l h by blast
qed

lemma round_half_even_near: "\<bar>of_int (round_half_even q) - q\<bar> \<le> 1 / 2"
  unfolding round_half_even_def Let_def by (simp; linarith)

lemma round_double_near: "\<bar>round_double x - x\<bar> \<le> 2 powi (float_exponent x - 53)"
proof (cases "x = 0")
  case True
  then show ?thesis by (simp add: round_double_def)
next
  case False
  let ?ulp = "(2::real) powi (float_exponent x - 52)"
  let ?q = "x / ?ulp"
  have pos: "0 < ?ulp" by simp
  have half: "(2::real) powi (float_exponent x - 53) = ?ulp / 2"
  proof -
    have "(2::real) powi ((float_exponent x - 53) + 1) = 2 powi (float_exponent x - 53) * 2"
      by (rule power_int_add_1) simp
    moreover have "(float_exponent x - 53) + 1 = float_exponent x - 52"
      by simp
    ultimately have "?ulp = 2 powi (float_exponent x - 53) * 2"
      by (simp only:)
    then show ?thesis by simp
  qed
  have "round_double x - x = (of_int (round_half_even ?q) - ?q) * ?ulp"
    using False pos by (simp add: round_double_def Let_def field_simps)
  then have "\<bar>round_double x - x\<bar> = \<bar>of_int (round_half_even ?q) - ?q\<bar> * ?ulp"
    using pos by (simp add: abs_mult)
  also have "\<dots> \<le> (1 / 2) * ?ulp"
    using round_half_even_near [of ?q] pos by (intro mult_right_mono) simp_all
  finally show ?thesis
    unfolding half by simp
qed

section \<open>Dictionaries and the alias table\<close>

lemmas zh_defs = zh_chuan_def zh_tiao_def zh_qiangshuang_def zh_keji_def zh_qita_def zh_qita2_def

lemmas float_defs = round_double_def float_exponent_def clog2_def ilog2.simps
  round_half_even_def power_int_minus Let_def

lemmas normalize_defs = normalize_probs_def lower_def lower_char_def TYPE_ALIASES_def
  VALID_TYPES_def dict_get_default_def zh_defs float_defs

lemma map_of_dict_set: "map_of (dict_set d k v) = (map_of d)(k \<mapsto> v)"
  by (induction d k v rule: dict_set.induct) (auto simp: fun_eq_iff)

lemma keys_dict_set:
  "map fst (dict_set d k v) = (if k \<in> set (map fst d) then map fst d else map fst d @ [k])"
  by (induction d k v rule: dict_set.induct) auto

lemma distinct_dict_set: "distinct (map fst d) \<Longrightarrow> distinct (map fst (dict_set d k v))"
  by (simp add: keys_dict_set)

lemma VALID_TYPES_eq: "VALID_TYPES = {''stream'', ''jump'', ''alt'', ''tech'', ''others''}"
  unfolding VALID_TYPES_def TYPE_ALIASES_def by (simp add: insert_commute)

lemma alias_values_valid: "map_of TYPE_ALIASES x = Some t \<Longrightarrow> t \<in> VALID_TYPES"
  unfolding VALID_TYPES_def by (drule map_of_SomeD) force

lemma valid_types_are_keys: "x \<in> VALID_TYPES \<Longrightarrow> map_of TYPE_ALIASES x = Some x"
  unfolding VALID_TYPES_eq by (elim insertE emptyE) (simp_all add: TYPE_ALIASES_def zh_defs)

text \<open>
  Line 125 falls back to the lowered label itself when the table has no entry for
  it, and line 126 then tests membership in \<open>VALID_TYPES\<close>. Every valid type is a
  key of the table, so the two lines together are the table lookup.
\<close>

lemma alias_lookup:
  "(let normalized_key = dict_get_default TYPE_ALIASES k k
    in if normalized_key \<in> VALID_TYPES then Some normalized_key else None) =
   dict_get TYPE_ALIASES k"
proof (cases "map_of TYPE_ALIASES k")
  case None
  then have "k \<notin> VALID_TYPES"
    using valid_types_are_keys by fastforce
  with None show ?thesis
    by (simp add: dict_get_default_def dict_get_def)
next
  case (Some t)
  then show ?thesis
    using alias_values_valid [OF Some] by (simp add: dict_get_default_def dict_get_def)
qed

section \<open>The normaliser\<close>

lemma normalize_loop_get:
  "map_of (normalize_loop raw acc) t =
     (if \<exists>(key, prob) \<in> set raw. dict_get TYPE_ALIASES (lower key) = Some t
      then Some (foldl float_add (case map_of acc t of None \<Rightarrow> Finite 0 | Some v \<Rightarrow> v)
                   (map snd (filter
                     (\<lambda>(key, prob). dict_get TYPE_ALIASES (lower key) = Some t) raw)))
      else map_of acc t)"
proof (induction raw acc rule: normalize_loop.induct)
  case (1 acc)
  then show ?case by simp
next
  case (2 key prob rest acc)
  show ?case
  proof (cases "dict_get TYPE_ALIASES (lower key)")
    case None
    then have nk: "dict_get_default TYPE_ALIASES (lower key) (lower key) \<notin> VALID_TYPES"
      using alias_lookup [of "lower key"] by (auto simp: Let_def split: if_splits)
    show ?thesis
      using 2(2) [OF refl nk] None nk by simp
  next
    case (Some c)
    then have nk: "dict_get_default TYPE_ALIASES (lower key) (lower key) \<in> VALID_TYPES"
      and eq: "dict_get_default TYPE_ALIASES (lower key) (lower key) = c"
      using alias_lookup [of "lower key"] by (auto simp: Let_def split: if_splits)
    show ?thesis
      using 2(1) [OF refl nk] Some nk eq
      by (auto simp: map_of_dict_set dict_get_default_def split: option.splits)
  qed
qed

lemma normalize_loop_distinct:
  "distinct (map fst acc) \<Longrightarrow> distinct (map fst (normalize_loop raw acc))"
  by (induction raw acc rule: normalize_loop.induct) (auto simp: Let_def distinct_dict_set)

lemma normalize_stream_example:
  "normalize_probs [(''Stream'', round_double 0.3), (zh_chuan, round_double 0.2)] =
     [(''stream'', Finite 0.5)]"
  by (simp add: normalize_defs)

text \<open>
  The sums are rounded as Python rounds them. Five aliases of stream with the floats
  0.12, 0.16, 0.03, 0.15 and 0.04 add up to \<open>0.5000000000000001\<close>, which is
  \<open>1/2 + 2^-53\<close> and greater than 0.5, although the five numbers written add up to
  0.5; and \<open>0.5 + 2^-60\<close> is 0.5.
\<close>

lemma normalize_rounds_like_python:
  "normalize_probs
     [(''stream'', round_double 0.12), (''Stream'', round_double 0.16),
      (''STREAM'', round_double 0.03), (''sTream'', round_double 0.15),
      (zh_chuan, round_double 0.04)] =
     [(''stream'', Finite (4503599627370497 / 9007199254740992))]"
  "determine_type [(''stream'', Finite (4503599627370497 / 9007199254740992))] = ''stream''"
  "normalize_probs [(''stream'', 0.5), (''Stream'', 2 powi (- 60))] = [(''stream'', Finite 0.5)]"
  "determine_type [(''stream'', Finite 0.5)] = ''others''"
  by (simp_all add: normalize_defs)

text \<open>
  C8. The normaliser looks each label up in the alias table after lowering it, so
  labels that differ only in case are treated alike; a label the table does not know
  contributes nothing; and the entry of a canonical type is the sum of the
  probabilities of all the labels that are aliases of it: the floating-point sum,
  taken from zero in the order of the reply (there is no entry when no label is an
  alias of the type). The result is a dictionary (its keys are distinct), and
  normalising \<open>{"Stream": 0.3, "chuan": 0.2}\<close>, where \<open>chuan\<close> stands for the
  Chinese alias of stream and the numbers for the floats so written, gives
  \<open>{stream: 0.5}\<close>.
\<close>

theorem normalize_probs_sums_aliases:
  "dict_get (normalize_probs raw_probs) t =
     (if \<exists>(key, prob) \<in> set raw_probs. dict_get TYPE_ALIASES (lower key) = Some t
      then Some (foldl float_add (Finite 0) (map snd (filter
                   (\<lambda>(key, prob). dict_get TYPE_ALIASES (lower key) = Some t) raw_probs)))
      else None)
   \<and> distinct (map fst (normalize_probs raw_probs))
   \<and> normalize_probs [(''Stream'', round_double 0.3), (zh_chuan, round_double 0.2)] =
       [(''stream'', Finite 0.5)]"
  unfolding normalize_probs_def dict_get_def
  using normalize_loop_get [of raw_probs "[]" t] normalize_loop_distinct [of "[]" raw_probs]
    normalize_stream_example
  by (simp add: normalize_probs_def dict_get_def)

theorem normalize_probs_sums_aliases_witness:
  "dict_get (normalize_probs [(''STREAM'', 0.25), (''speed'', 0.5), (''stream'', 0.125)]) ''stream''
     = Some (Finite 0.375)
   \<and> dict_get (normalize_probs [(''STREAM'', 0.25), (''speed'', 0.5), (''stream'', 0.125)]) ''speed''
     = None"
  using normalize_probs_sums_aliases
      [of "[(''STREAM'', 0.25), (''speed'', 0.5), (''stream'', 0.125)]" "''stream''"]
    normalize_probs_sums_aliases
      [of "[(''STREAM'', 0.25), (''speed'', 0.5), (''stream'', 0.125)]" "''speed''"]
  by (simp add: dict_get_def lower_def lower_char_def TYPE_ALIASES_def zh_defs float_defs)

section \<open>The threshold\<close>

lemma determine_type_none:
  "\<forall>(t, p) \<in> set normalized_probs. \<not> float_gt p 0.5 \<Longrightarrow>
   determine_type normalized_probs = ''others''"
  by (induction normalized_probs rule: determine_type.induct) auto

lemma determine_type_first:
  "\<exists>(t, p) \<in> set normalized_probs. float_gt p 0.5 \<Longrightarrow>
   \<exists>before p after.
     normalized_probs = before @ (determine_type normalized_probs, p) # after \<and>
     float_gt p 0.5 \<and> (\<forall>(t', p') \<in> set before. \<not> float_gt p' 0.5)"
proof (induction normalized_probs rule: determine_type.induct)
  case 1
  then show ?case by simp
next
  case (2 type_name probability rest)
  show ?case
  proof (cases "float_gt probability 0.5")
    case True
    then have "(type_name, probability) # rest =
        [] @ (determine_type ((type_name, probability) # rest), probability) # rest"
      by simp
    with True show ?thesis by (metis empty_iff list.set(1))
  next
    case False
    with 2 obtain before p after where
      split: "rest = before @ (determine_type rest, p) # after" and
      p: "float_gt p 0.5" and
      low: "\<forall>(t', p') \<in> set before. \<not> float_gt p' 0.5"
      by auto
    let ?xs = "(type_name, probability) # rest"
    from False have same: "determine_type ?xs = determine_type rest"
      by simp
    have "?xs = ((type_name, probability) # before) @ (determine_type ?xs, p) # after"
      using split same by simp
    moreover have "\<forall>(t', p') \<in> set ((type_name, probability) # before). \<not> float_gt p' 0.5"
      using low False by auto
    ultimately show ?thesis
      using p by blast
  qed
qed

lemma oracle_type_is_determine_type:
  "snd (get_oracle_analysis_results (Some raw_probs)) = determine_type (normalize_probs raw_probs)"
  by (simp add: get_oracle_analysis_results_def Let_def normalize_probs_def)

text \<open>
  C4. The type derived from a normalised mapping is \<open>others\<close> when no entry is
  strictly greater than 0.5 (so also for the empty mapping, and for an entry equal to
  0.5); otherwise it is a type whose entry is greater than 0.5, namely the first such
  entry in iteration order. The entries are floats, an overflowed sum included. The
  type \<open>get_oracle_analysis_results\<close> returns for a reply is the type so derived
  from the normalised reply.
\<close>

theorem determine_type_threshold:
  "(if \<exists>(t, p) \<in> set normalized_probs. float_gt p 0.5
    then \<exists>before p after.
           normalized_probs = before @ (determine_type normalized_probs, p) # after \<and>
           float_gt p 0.5 \<and> (\<forall>(t', p') \<in> set before. \<not> float_gt p' 0.5)
    else determine_type normalized_probs = ''others'')
   \<and> snd (get_oracle_analysis_results (Some raw_probs)) =
       determine_type (normalize_probs raw_probs)"
proof (cases "\<exists>(t, p) \<in> set normalized_probs. float_gt p 0.5")
  case True
  then show ?thesis
    using determine_type_first [OF True] oracle_type_is_determine_type by simp
next
  case False
  then have "\<forall>(t, p) \<in> set normalized_probs. \<not> float_gt p 0.5"
    by auto
  then show ?thesis
    using False determine_type_none oracle_type_is_determine_type by simp
qed

theorem determine_type_threshold_witness:
  "determine_type [(''stream'', Finite 0.5), (''jump'', Finite 0.3)] = ''others''
   \<and> determine_type [] = ''others''
   \<and> determine_type [(''stream'', Finite 0.2), (''jump'', Finite 0.6)] = ''jump''"
  using determine_type_threshold [of "[(''stream'', Finite 0.5), (''jump'', Finite 0.3)]" "[]"]
    determine_type_threshold [of "[]" "[]"]
    determine_type_threshold [of "[(''stream'', Finite 0.2), (''jump'', Finite 0.6)]" "[]"]
  by simp

section \<open>Evaluating the handler\<close>

lemmas example_defs = some_binding_def some_official_def healthy_env_def empty_store_def
  tech_row_def manual_store_def

lemmas handler_defs = handle_recommend_command_def resolve_and_record_def auto_branch_def
  manual_branch_def fetch_and_store_beatmap_info_def get_oracle_analysis_results_def
  store_beatmap_analysis_def store_beatmap_analysis_probabilities_only_def
  add_to_pending_review_def store_recommendation_def truthy_str_def truthy_int_def
  falsy_dict_def dict_get_def

section \<open>The review queue\<close>

lemma upsert_pending_bids:
  "map pending_bid (upsert_pending new rs) =
     (if pending_bid new \<in> set (map pending_bid rs) then map pending_bid rs
      else map pending_bid rs @ [pending_bid new])"
  by (induction rs) auto

lemma upsert_pending_same:
  "distinct (map pending_bid rs) \<Longrightarrow>
   filter (\<lambda>r. pending_bid r = pending_bid new) (upsert_pending new rs) = [new]"
proof (induction rs)
  case Nil
  then show ?case by simp
next
  case (Cons r rs)
  show ?case
  proof (cases "pending_bid r = pending_bid new")
    case True
    have "pending_bid x \<noteq> pending_bid new" if "x \<in> set rs" for x
    proof
      assume "pending_bid x = pending_bid new"
      with True have "pending_bid r = pending_bid x" by simp
      with that have "pending_bid r \<in> set (map pending_bid rs)"
        by (simp add: image_iff) blast
      with Cons.prems show False by simp
    qed
    then have "filter (\<lambda>r. pending_bid r = pending_bid new) rs = []"
      by (simp add: filter_empty_conv)
    with True show ?thesis by simp
  next
    case False
    with Cons show ?thesis by simp
  qed
qed

lemma upsert_pending_others:
  "filter (\<lambda>r. pending_bid r \<noteq> pending_bid new) (upsert_pending new rs) =
   filter (\<lambda>r. pending_bid r \<noteq> pending_bid new) rs"
  by (induction rs) auto

lemma upsert_pending_distinct:
  "distinct (map pending_bid rs) \<Longrightarrow> distinct (map pending_bid (upsert_pending new rs))"
  by (simp add: upsert_pending_bids)

lemma two_resolutions_one_row:
  "PendingBeatmapReviews
     (run_recommend_commands
        [\<lparr>call_env = healthy_env None, call_qqid = 10, call_type = None,
           call_bid = Some 42, call_description = ''d''\<rparr>,
         \<lparr>call_env = healthy_env (Some [(''stream'', 0.4), (''jump'', 0.3)]), call_qqid = 11,
           call_type = None, call_bid = Some 42, call_description = ''e''\<rparr>]
        empty_store) =
   [\<lparr>pending_bid = 42, reason_for_pending = oracle_ambiguous_result,
     triggered_by_recommendation_id = None, added_to_queue_at = 100\<rparr>]"
  by (simp add: handler_defs example_defs normalize_defs
      oracle_ambiguous_or_failed_no_user_type_def oracle_ambiguous_result_def)

text \<open>
  C5. In a queue with at most one row per beatmap, enqueuing a beatmap keeps at
  most one row per beatmap; after two consecutive enqueuings of the same beatmap the
  queue holds exactly one row for it, carrying the second reason (and the second
  back-reference and time), and the rows of the other beatmaps are as before. So
  two invocations of the command for beatmap 42 on the empty store, the first with a
  failed oracle call and the second with an ambiguous reply, leave one row, with the
  reason of the second.
\<close>

theorem pending_review_upsert_last_wins:
  assumes "distinct (map pending_bid (PendingBeatmapReviews db))"
  shows "(let db1 = add_to_pending_review DbOk now1 bid reason1 rid1 db;
             db2 = add_to_pending_review DbOk now2 bid reason2 rid2 db1
         in distinct (map pending_bid (PendingBeatmapReviews db1)) \<and>
            distinct (map pending_bid (PendingBeatmapReviews db2)) \<and>
            filter (\<lambda>r. pending_bid r = bid) (PendingBeatmapReviews db1) =
              [\<lparr>pending_bid = bid, reason_for_pending = reason1,
                triggered_by_recommendation_id = rid1, added_to_queue_at = now1\<rparr>] \<and>
            filter (\<lambda>r. pending_bid r = bid) (PendingBeatmapReviews db2) =
              [\<lparr>pending_bid = bid, reason_for_pending = reason2,
                triggered_by_recommendation_id = rid2, added_to_queue_at = now2\<rparr>] \<and>
            filter (\<lambda>r. pending_bid r \<noteq> bid) (PendingBeatmapReviews db2) =
              filter (\<lambda>r. pending_bid r \<noteq> bid) (PendingBeatmapReviews db))
       \<and> PendingBeatmapReviews
           (run_recommend_commands
              [\<lparr>call_env = healthy_env None, call_qqid = 10, call_type = None,
                 call_bid = Some 42, call_description = ''d''\<rparr>,
               \<lparr>call_env = healthy_env (Some [(''stream'', 0.4), (''jump'', 0.3)]),
                 call_qqid = 11, call_type = None, call_bid = Some 42,
                 call_description = ''e''\<rparr>]
              empty_store) =
         [\<lparr>pending_bid = 42, reason_for_pending = oracle_ambiguous_result,
           triggered_by_recommendation_id = None, added_to_queue_at = 100\<rparr>]"
proof -
  let ?n1 = "\<lparr>pending_bid = bid, reason_for_pending = reason1,
                triggered_by_recommendation_id = rid1, added_to_queue_at = now1\<rparr>"
  let ?n2 = "\<lparr>pending_bid = bid, reason_for_pending = reason2,
                triggered_by_recommendation_id = rid2, added_to_queue_at = now2\<rparr>"
  let ?t0 = "PendingBeatmapReviews db"
  let ?t1 = "upsert_pending ?n1 ?t0"
  let ?t2 = "upsert_pending ?n2 ?t1"
  have d1: "distinct (map pending_bid ?t1)"
    using assms by (rule upsert_pending_distinct)
  have d2: "distinct (map pending_bid ?t2)"
    using d1 by (rule upsert_pending_distinct)
  have s1: "filter (\<lambda>r. pending_bid r = bid) ?t1 = [?n1]"
    using upsert_pending_same [OF assms, of ?n1] by simp
  have s2: "filter (\<lambda>r. pending_bid r = bid) ?t2 = [?n2]"
    using upsert_pending_same [OF d1, of ?n2] by simp
  have o: "filter (\<lambda>r. pending_bid r \<noteq> bid) ?t2 = filter (\<lambda>r. pending_bid r \<noteq> bid) ?t0"
    using upsert_pending_others [of ?n2 ?t1] upsert_pending_others [of ?n1 ?t0] by simp
  show ?thesis
    using d1 d2 s1 s2 o two_resolutions_one_row
    by (simp add: add_to_pending_review_def Let_def)
qed

theorem pending_review_upsert_last_wins_witness:
  "distinct (map pending_bid (PendingBeatmapReviews empty_store)) \<and>
   PendingBeatmapReviews
     (add_to_pending_review DbOk 2 42 oracle_ambiguous_result None
       (add_to_pending_review DbOk 1 42 oracle_ambiguous_or_failed_no_user_type None empty_store)) =
   [\<lparr>pending_bid = 42, reason_for_pending = oracle_ambiguous_result,
     triggered_by_recommendation_id = None, added_to_queue_at = 2\<rparr>]"
proof -
  have h: "distinct (map pending_bid (PendingBeatmapReviews empty_store))"
    by (simp add: empty_store_def)
  show ?thesis
    using h pending_review_upsert_last_wins
      [OF h, of 1 42 oracle_ambiguous_or_failed_no_user_type None 2 oracle_ambiguous_result None]
    by (simp add: add_to_pending_review_def empty_store_def)
qed

section \<open>The manual lock\<close>

lemma classification_probabilities_only [simp]:
  "classification_of (store_beatmap_analysis_probabilities_only f now bid probs db) b =
   classification_of db b"
  by (auto simp: classification_of_def store_beatmap_analysis_probabilities_only_def
      split: option.splits)

lemma classification_store_analysis:
  "classification_of db b = Some (t, False) \<Longrightarrow>
   classification_of (store_beatmap_analysis f now bid probs dt auto_typed db) b = Some (t, False)"
  by (auto simp: classification_of_def store_beatmap_analysis_def Let_def split: option.splits)

lemma classification_add_pending [simp]:
  "classification_of (add_to_pending_review f now bid reason rid db) b = classification_of db b"
  by (simp add: classification_of_def add_to_pending_review_def)

lemma classification_store_recommendation [simp]:
  "classification_of (snd (store_recommendation f now q bid u t a d db)) b = classification_of db b"
  by (simp add: classification_of_def store_recommendation_def Let_def)

lemma classification_fetch [simp]:
  "classification_of (snd (fetch_and_store_beatmap_info r f bid db)) b = classification_of db b"
  by (simp add: classification_of_def fetch_and_store_beatmap_info_def split: option.splits)

lemma classification_manual_branch [simp]:
  "classification_of (snd (snd (snd (manual_branch env bid u raw d db)))) b = classification_of db b"
  by (simp add: manual_branch_def Let_def split: option.splits prod.splits)

lemma classification_auto_branch:
  assumes "classification_of db b = Some (t, False)"
  shows "classification_of (snd (snd (snd (auto_branch env bid u raw ot db)))) b = Some (t, False)"
  unfolding auto_branch_def Let_def using assms
  by (auto split: option.splits if_splits intro!: classification_store_analysis)

lemma classification_resolve_and_record:
  assumes "classification_of db b = Some (t, False)"
  shows "classification_of (snd (resolve_and_record env q br u bid d db)) b = Some (t, False)"
proof -
  let ?db1 = "snd (fetch_and_store_beatmap_info (official_reply env) (info_fault env) bid db)"
  have c1: "classification_of ?db1 b = Some (t, False)"
    using assms by simp
  note br = classification_auto_branch [OF c1]
  show ?thesis
    unfolding resolve_and_record_def Let_def split_beta
    by (simp add: assms br split: option.splits)
qed

lemma classification_handle_recommend_command:
  assumes "classification_of db b = Some (t, False)"
  shows "classification_of (snd (handle_recommend_command env q u bid d db)) b = Some (t, False)"
  unfolding handle_recommend_command_def using assms classification_resolve_and_record
  by (auto split: option.splits)

lemma classification_run:
  "classification_of db b = Some (t, False) \<Longrightarrow>
   classification_of (run_recommend_commands calls db) b = Some (t, False)"
  by (induction calls arbitrary: db) (auto intro: classification_handle_recommend_command)

lemma classification_override:
  "BeatmapAnalysis db b = Some row \<Longrightarrow>
   update_beatmap_classification TxOk now b new_type admin_id db =
     (True,
      db\<lparr>BeatmapAnalysis := (BeatmapAnalysis db)(b \<mapsto>
            row\<lparr>determined_b_type := new_type, is_auto_typed := False,
                manual_review_at := Some now, reviewed_by_admin_id := Some admin_id\<rparr>),
         PendingBeatmapReviews := filter (\<lambda>r. pending_bid r \<noteq> b) (PendingBeatmapReviews db)\<rparr>)"
  by (simp add: update_beatmap_classification_def Let_def)

text \<open>
  C1. If the row of a beatmap is manual (\<open>is_auto_typed\<close> is false), then after any
  sequence of invocations of the recommend command, for any beatmaps, asserted types,
  oracle replies and database faults, the row is still there, still manual, and
  its \<open>determined_b_type\<close> is what it was. The administrator's
  \<open>update_beatmap_classification\<close>, when it goes through, does set the type.
\<close>

theorem manual_lock_invariant:
  assumes "BeatmapAnalysis db b = Some row" and "\<not> is_auto_typed row"
  shows "(\<exists>row'. BeatmapAnalysis (run_recommend_commands calls db) b = Some row' \<and>
            determined_b_type row' = determined_b_type row \<and> \<not> is_auto_typed row')
       \<and> classification_of
            (snd (update_beatmap_classification TxOk now b new_type admin_id db)) b =
          Some (new_type, False)"
proof -
  have "classification_of db b = Some (determined_b_type row, False)"
    using assms by (simp add: classification_of_def)
  then have "classification_of (run_recommend_commands calls db) b =
      Some (determined_b_type row, False)"
    by (rule classification_run)
  then have "\<exists>row'. BeatmapAnalysis (run_recommend_commands calls db) b = Some row' \<and>
      determined_b_type row' = determined_b_type row \<and> \<not> is_auto_typed row'"
    by (auto simp: classification_of_def)
  moreover have "classification_of
      (snd (update_beatmap_classification TxOk now b new_type admin_id db)) b =
      Some (new_type, False)"
    using classification_override [OF assms(1)] by (simp add: classification_of_def)
  ultimately show ?thesis by simp
qed

theorem manual_lock_invariant_witness:
  "BeatmapAnalysis manual_store 42 = Some tech_row \<and> \<not> is_auto_typed tech_row \<and>
   (\<exists>row'. BeatmapAnalysis
             (run_recommend_commands
                [\<lparr>call_env = healthy_env None, call_qqid = 10, call_type = Some ''jump'',
                   call_bid = Some 42, call_description = ''d''\<rparr>,
                 \<lparr>call_env = healthy_env (Some [(''stream'', 0.9)]), call_qqid = 11,
                   call_type = None, call_bid = Some 42, call_description = ''e''\<rparr>]
                manual_store) 42 = Some row' \<and>
           determined_b_type row' = ''tech'' \<and> \<not> is_auto_typed row')"
proof -
  have h1: "BeatmapAnalysis manual_store 42 = Some tech_row"
    by (simp add: manual_store_def empty_store_def)
  have h2: "\<not> is_auto_typed tech_row"
    by (simp add: tech_row_def)
  have t: "determined_b_type tech_row = ''tech''"
    by (simp add: tech_row_def)
  show ?thesis
    using h1 h2 t
      manual_lock_invariant [OF h1 h2,
        of "[\<lparr>call_env = healthy_env None, call_qqid = 10, call_type = Some ''jump'',
               call_bid = Some 42, call_description = ''d''\<rparr>,
             \<lparr>call_env = healthy_env (Some [(''stream'', 0.9)]), call_qqid = 11,
               call_type = None, call_bid = Some 42, call_description = ''e''\<rparr>]"]
    by simp
qed

section \<open>A failed oracle call and an asserted type\<close>

text \<open>
  C2. The empty store, the caller asserts jump for beatmap 42, the oracle call fails.
  The recommendation is recorded as jump and the row written is jump and automatic,
  but the test of line 348 holds before the one of line 351 is reached (the oracle's
  type is \<open>others\<close> after a failure), so the queue entry carries the reason of line
  350, "User specified 'jump', oracle: 'others'", and not
  \<open>oracle_failed_user_specified_type\<close>, and the message of line 349 is sent
  instead of the one of line 353.
\<close>

theorem failed_oracle_with_user_type_reason:
  "fst (handle_recommend_command (healthy_env None) 10 (Some ''jump'') (Some 42) ''d'' empty_store) =
     Recorded \<lparr>final_determined_b_type_for_db = ''jump'', reply_recommend_type = ''jump'',
               additional_messages = [UserSetType ''jump'', OracleDisagrees ''others''],
               reply_recommendation_id = 1\<rparr>
   \<and> PendingBeatmapReviews
        (snd (handle_recommend_command (healthy_env None) 10 (Some ''jump'') (Some 42) ''d''
               empty_store)) =
       [\<lparr>pending_bid = 42, reason_for_pending = mismatch_reason ''jump'' ''others'',
         triggered_by_recommendation_id = None, added_to_queue_at = 100\<rparr>]
   \<and> BeatmapAnalysis
        (snd (handle_recommend_command (healthy_env None) 10 (Some ''jump'') (Some 42) ''d''
               empty_store)) 42 =
       Some \<lparr>determined_b_type = ''jump'', is_auto_typed = True,
             stream_prob = None, jump_prob = None, alt_prob = None, tech_prob = None,
             oracle_last_run_at = None, manual_review_at = None,
             reviewed_by_admin_id = None\<rparr>
   \<and> mismatch_reason ''jump'' ''others'' \<noteq> oracle_failed_user_specified_type"
  by (simp add: handler_defs example_defs Let_def mismatch_reason_def
      oracle_failed_user_specified_type_def)

section \<open>The administrator's override\<close>

lemma alias_value_nonempty: "map_of TYPE_ALIASES k = Some t \<Longrightarrow> t \<noteq> [] \<and> t \<in> VALID_TYPES"
  using alias_values_valid [of k t] by (auto simp: VALID_TYPES_eq)

text \<open>
  C3. Without a BeatmapAnalysis row for the beatmap, \<open>update_beatmap_classification\<close>
  fails and changes nothing, and the command, given a type the alias table knows,
  answers that the beatmap was not found. With a row, the update either goes through
  (no fault): the row gets the new type, \<open>is_auto_typed = 0\<close>, the review time and the
  administrator, and the queue loses every row of the beatmap; or, whatever fails
  (the connection, the \<open>SELECT\<close>, the \<open>UPDATE\<close>, the \<open>DELETE\<close> or the \<open>commit\<close>), it
  reports failure and the store is what it was: never the update without the
  deletion, nor the deletion without the update.
\<close>

theorem override_classification_atomic:
  "(BeatmapAnalysis db bid = None \<longrightarrow>
      update_beatmap_classification fault now bid new_type admin_id db = (False, db) \<and>
      (dict_get TYPE_ALIASES (lower raw_new_type) \<noteq> None \<longrightarrow>
         handle_pending_command lookup_fault fault now bid raw_new_type admin_id db =
           (NotFound, db)))
   \<and> (\<forall>row. BeatmapAnalysis db bid = Some row \<longrightarrow>
        update_beatmap_classification fault now bid new_type admin_id db =
          (if fault = TxOk
           then (True,
                 db\<lparr>BeatmapAnalysis := (BeatmapAnalysis db)(bid \<mapsto>
                       row\<lparr>determined_b_type := new_type, is_auto_typed := False,
                           manual_review_at := Some now,
                           reviewed_by_admin_id := Some admin_id\<rparr>),
                    PendingBeatmapReviews :=
                      filter (\<lambda>r. pending_bid r \<noteq> bid) (PendingBeatmapReviews db)\<rparr>)
           else (False, db)))"
proof -
  have nf: "handle_pending_command lookup_fault fault now bid raw_new_type admin_id db =
      (NotFound, db)"
    if none: "BeatmapAnalysis db bid = None"
      and known: "dict_get TYPE_ALIASES (lower raw_new_type) \<noteq> None"
  proof -
    from known obtain t where t: "map_of TYPE_ALIASES (lower raw_new_type) = Some t"
      by (auto simp: dict_get_def)
    from alias_value_nonempty [OF t] t none show ?thesis
      by (simp add: handle_pending_command_def dict_get_def get_beatmap_analysis_info_def)
  qed
  have missing: "update_beatmap_classification fault now bid new_type admin_id db = (False, db)"
    if "BeatmapAnalysis db bid = None"
    using that by (simp add: update_beatmap_classification_def)
  have present: "update_beatmap_classification fault now bid new_type admin_id db =
          (if fault = TxOk
           then (True,
                 db\<lparr>BeatmapAnalysis := (BeatmapAnalysis db)(bid \<mapsto>
                       row\<lparr>determined_b_type := new_type, is_auto_typed := False,
                           manual_review_at := Some now,
                           reviewed_by_admin_id := Some admin_id\<rparr>),
                    PendingBeatmapReviews :=
                      filter (\<lambda>r. pending_bid r \<noteq> bid) (PendingBeatmapReviews db)\<rparr>)
           else (False, db))"
    if "BeatmapAnalysis db bid = Some row" for row
    using that by (cases fault) (simp_all add: update_beatmap_classification_def Let_def)
  show ?thesis
    using nf missing present by blast
qed

theorem override_classification_atomic_witness:
  "handle_pending_command DbOk TxOk 200 42 ''TECH'' ''admin'' empty_store = (NotFound, empty_store)
   \<and> update_beatmap_classification TxOk 200 42 ''tech'' ''admin'' empty_store =
       (False, empty_store)
   \<and> classification_of
         (snd (update_beatmap_classification TxOk 200 42 ''tech'' ''admin'' queued_store)) 42 =
       Some (''tech'', False)
   \<and> PendingBeatmapReviews
         (snd (update_beatmap_classification TxOk 200 42 ''tech'' ''admin'' queued_store)) = []
   \<and> update_beatmap_classification TxDeleteFails 200 42 ''tech'' ''admin'' queued_store =
       (False, queued_store)"
proof -
  have none: "BeatmapAnalysis empty_store 42 = None"
    by (simp add: empty_store_def)
  have known: "dict_get TYPE_ALIASES (lower ''TECH'') \<noteq> None"
    by (simp add: dict_get_def lower_def lower_char_def TYPE_ALIASES_def zh_defs)
  have row: "BeatmapAnalysis queued_store 42 = Some others_row"
    by (simp add: queued_store_def empty_store_def)
  show ?thesis
    using none known row
      override_classification_atomic [where db = empty_store and bid = 42 and fault = TxOk
        and now = 200 and new_type = "''tech''" and admin_id = "''admin''"
        and raw_new_type = "''TECH''" and lookup_fault = DbOk]
      override_classification_atomic [where db = queued_store and bid = 42 and fault = TxOk
        and now = 200 and new_type = "''tech''" and admin_id = "''admin''"
        and raw_new_type = "''TECH''" and lookup_fault = DbOk]
      override_classification_atomic [where db = queued_store and bid = 42
        and fault = TxDeleteFails and now = 200 and new_type = "''tech''"
        and admin_id = "''admin''" and raw_new_type = "''TECH''" and lookup_fault = DbOk]
    by (simp add: classification_of_def queued_store_def empty_store_def)
qed

section \<open>The two branches of an invocation\<close>

lemma fst_oracle_results [simp]: "fst (get_oracle_analysis_results reply) = reply"
  by (simp add: get_oracle_analysis_results_def Let_def split: option.splits)

lemma failed_oracle_is_others [simp]: "snd (get_oracle_analysis_results None) = ''others''"
  by (simp add: get_oracle_analysis_results_def)

lemma fetch_ok:
  "official_reply env = Some info \<Longrightarrow> info \<noteq> [] \<Longrightarrow>
   fst (fetch_and_store_beatmap_info (official_reply env) (info_fault env) bid db) = Some info"
  by (simp add: fetch_and_store_beatmap_info_def)

lemma fetch_frame [simp]:
  "BeatmapAnalysis (snd (fetch_and_store_beatmap_info r f bid db)) = BeatmapAnalysis db"
  "PendingBeatmapReviews (snd (fetch_and_store_beatmap_info r f bid db)) = PendingBeatmapReviews db"
  "Recommendations (snd (fetch_and_store_beatmap_info r f bid db)) = Recommendations db"
  by (simp_all add: fetch_and_store_beatmap_info_def split: option.splits)

lemma store_recommendation_frame [simp]:
  "BeatmapAnalysis (snd (store_recommendation f now q bid n u t d db)) = BeatmapAnalysis db"
  "PendingBeatmapReviews (snd (store_recommendation f now q bid n u t d db)) =
     PendingBeatmapReviews db"
  by (simp_all add: store_recommendation_def Let_def)

lemma resolve_manual:
  assumes "official_reply env = Some info" and "info \<noteq> []" and "check_fault env = DbOk"
    and "BeatmapAnalysis db bid = Some row" and "\<not> is_auto_typed row"
  shows "resolve_and_record env q br u bid d db =
     (let db1 = snd (fetch_and_store_beatmap_info (official_reply env) (info_fault env) bid db);
          res = manual_branch env bid u (oracle_reply env) (determined_b_type row) db1;
          sr = store_recommendation (recommendation_fault env) (clock env) q bid
                 (osu_username_at_bind br) u (fst (snd res)) d (snd (snd (snd res)))
      in case fst sr of
           None \<Rightarrow> (RecordFailed, snd sr)
         | Some rid \<Rightarrow>
             (Recorded \<lparr>final_determined_b_type_for_db = fst res,
                        reply_recommend_type = fst (snd res),
                        additional_messages = fst (snd (snd res)),
                        reply_recommendation_id = rid\<rparr>, snd sr))"
  unfolding resolve_and_record_def Let_def split_beta
  by (simp add: fetch_ok [OF assms(1,2)] assms(3,4,5) split: option.splits)

lemma resolve_auto:
  assumes "official_reply env = Some info" and "info \<noteq> []" and "check_fault env \<noteq> QueryError"
    and "check_fault env = NoConnection \<or> BeatmapAnalysis db bid = None \<or>
         (\<exists>row. BeatmapAnalysis db bid = Some row \<and> is_auto_typed row)"
  shows "resolve_and_record env q br u bid d db =
     (let db1 = snd (fetch_and_store_beatmap_info (official_reply env) (info_fault env) bid db);
          res = auto_branch env bid u (oracle_reply env)
                  (snd (get_oracle_analysis_results (oracle_reply env))) db1;
          sr = store_recommendation (recommendation_fault env) (clock env) q bid
                 (osu_username_at_bind br) u (fst (snd res)) d (snd (snd (snd res)))
      in case fst sr of
           None \<Rightarrow> (RecordFailed, snd sr)
         | Some rid \<Rightarrow>
             (Recorded \<lparr>final_determined_b_type_for_db = fst res,
                        reply_recommend_type = fst (snd res),
                        additional_messages = fst (snd (snd res)),
                        reply_recommendation_id = rid\<rparr>, snd sr))"
  using assms(3,4) unfolding resolve_and_record_def Let_def split_beta
  by (auto simp: fetch_ok [OF assms(1,2)] split: option.splits)

section \<open>What an invocation stores in BeatmapAnalysis\<close>

lemma snd_case_option [simp]:
  "snd (case x of None \<Rightarrow> (a, s) | Some r \<Rightarrow> (f r, s)) = s"
  by (cases x) auto

lemma manual_branch_analysis:
  "BeatmapAnalysis (snd (snd (snd (manual_branch env bid u reply t db)))) =
     (case reply of
        Some probs \<Rightarrow>
          BeatmapAnalysis
            (store_beatmap_analysis_probabilities_only (probs_fault env) (clock env) bid probs db)
      | None \<Rightarrow> BeatmapAnalysis db)"
  by (simp add: manual_branch_def Let_def split_beta split: option.splits)

lemma manual_branch_pending [simp]:
  "PendingBeatmapReviews (snd (snd (snd (manual_branch env bid u reply t db)))) =
   PendingBeatmapReviews db"
  by (simp add: manual_branch_def Let_def split_beta
      store_beatmap_analysis_probabilities_only_def split: option.splits)

text \<open>
  C9. When the handler has read a manual row for the beatmap (metadata fetched, the
  \<open>SELECT\<close> went through), the BeatmapAnalysis table afterwards differs from the one
  before at most in that row's four probabilities and \<open>oracle_last_run_at\<close>, and the
  change is made only when the oracle returned a dictionary (and the \<open>UPDATE\<close> went
  through); after a failed oracle call the table is unchanged. The type and the flag
  of the row are as before.
\<close>

theorem manual_row_probabilities_only_refresh:
  assumes "official_reply env = Some info" and "info \<noteq> []" and "check_fault env = DbOk"
    and "BeatmapAnalysis db bid = Some row" and "\<not> is_auto_typed row"
  shows "BeatmapAnalysis (snd (resolve_and_record env q br u bid d db)) =
     (case oracle_reply env of
        Some raw_probs \<Rightarrow>
          if probs_fault env = DbOk
          then (BeatmapAnalysis db)(bid \<mapsto>
                 row\<lparr>stream_prob := dict_get raw_probs ''stream'',
                     jump_prob := dict_get raw_probs ''jump'',
                     alt_prob := dict_get raw_probs ''alt'',
                     tech_prob := dict_get raw_probs ''tech'',
                     oracle_last_run_at := Some (clock env)\<rparr>)
          else BeatmapAnalysis db
      | None \<Rightarrow> BeatmapAnalysis db)
   \<and> classification_of (snd (resolve_and_record env q br u bid d db)) bid =
       Some (determined_b_type row, False)"
proof -
  have "BeatmapAnalysis (snd (resolve_and_record env q br u bid d db)) =
     (case oracle_reply env of
        Some raw_probs \<Rightarrow>
          if probs_fault env = DbOk
          then (BeatmapAnalysis db)(bid \<mapsto>
                 row\<lparr>stream_prob := dict_get raw_probs ''stream'',
                     jump_prob := dict_get raw_probs ''jump'',
                     alt_prob := dict_get raw_probs ''alt'',
                     tech_prob := dict_get raw_probs ''tech'',
                     oracle_last_run_at := Some (clock env)\<rparr>)
          else BeatmapAnalysis db
      | None \<Rightarrow> BeatmapAnalysis db)"
    unfolding resolve_manual [OF assms] Let_def
    by (simp add: manual_branch_analysis store_beatmap_analysis_probabilities_only_def assms(4,5)
        split: option.splits)
  moreover have "classification_of db bid = Some (determined_b_type row, False)"
    using assms(4,5) by (simp add: classification_of_def)
  then have "classification_of (snd (resolve_and_record env q br u bid d db)) bid =
      Some (determined_b_type row, False)"
    by (rule classification_resolve_and_record)
  ultimately show ?thesis by simp
qed

theorem manual_row_probabilities_only_refresh_witness:
  "BeatmapAnalysis
     (snd (resolve_and_record (healthy_env (Some [(''stream'', 0.9)])) 10 some_binding
             (Some ''jump'') 42 ''d'' manual_store)) 42 =
     Some (tech_row\<lparr>stream_prob := Some 0.9, oracle_last_run_at := Some 100\<rparr>)
   \<and> BeatmapAnalysis
       (snd (resolve_and_record (healthy_env None) 10 some_binding (Some ''jump'') 42 ''d''
               manual_store)) =
     BeatmapAnalysis manual_store"
proof -
  have h1: "official_reply (healthy_env r) = Some some_official" for r
    by (simp add: healthy_env_def)
  have h2: "some_official \<noteq> []"
    by (simp add: some_official_def)
  have h3: "check_fault (healthy_env r) = DbOk" for r
    by (simp add: healthy_env_def)
  have h4: "BeatmapAnalysis manual_store 42 = Some tech_row"
    by (simp add: manual_store_def empty_store_def)
  have h5: "\<not> is_auto_typed tech_row"
    by (simp add: tech_row_def)
  show ?thesis
    using manual_row_probabilities_only_refresh [OF h1 h2 h3 h4 h5,
        of "Some [(''stream'', 0.9)]" 10 some_binding "Some ''jump''" "''d''"]
      manual_row_probabilities_only_refresh [OF h1 h2 h3 h4 h5,
        of None 10 some_binding "Some ''jump''" "''d''"]
    by (simp add: healthy_env_def dict_get_def tech_row_def)
qed

lemma store_analysis_row:
  "\<exists>row'. BeatmapAnalysis (store_beatmap_analysis DbOk now bid (Some raw) t a db) bid = Some row' \<and>
     stream_prob row' = dict_get raw ''stream'' \<and> jump_prob row' = dict_get raw ''jump'' \<and>
     alt_prob row' = dict_get raw ''alt'' \<and> tech_prob row' = dict_get raw ''tech''"
  by (simp add: store_beatmap_analysis_def Let_def split: option.splits)

lemma auto_branch_analysis:
  assumes "analysis_fault env = DbOk"
  shows "\<exists>row'. BeatmapAnalysis (snd (snd (snd (auto_branch env bid u (Some raw) ot db)))) bid =
           Some row' \<and>
         stream_prob row' = dict_get raw ''stream'' \<and> jump_prob row' = dict_get raw ''jump'' \<and>
         alt_prob row' = dict_get raw ''alt'' \<and> tech_prob row' = dict_get raw ''tech''"
  unfolding auto_branch_def split_beta assms
  by (simp add: store_analysis_row Let_def)

text \<open>
  C10. Whenever the oracle returned a dictionary and the writes go through, the row of
  the beatmap afterwards holds, as its four probabilities, what the raw dictionary
  has under exactly the keys \<open>stream\<close>, \<open>jump\<close>, \<open>alt\<close>, \<open>tech\<close>, and nothing
  (\<open>NULL\<close>) for a key the raw dictionary lacks. For the reply \<open>{"Stream": 0.9}\<close> the
  derived type is stream, from a normalised probability of 0.9, while the raw
  dictionary has no key \<open>stream\<close>: the stored stream probability is \<open>NULL\<close>.
\<close>

theorem stored_probabilities_read_raw_keys:
  assumes "official_reply env = Some info" and "info \<noteq> []"
    and "check_fault env = DbOk" and "probs_fault env = DbOk" and "analysis_fault env = DbOk"
    and "oracle_reply env = Some raw"
  shows "(\<exists>row'. BeatmapAnalysis (snd (resolve_and_record env q br u bid d db)) bid = Some row' \<and>
            stream_prob row' = dict_get raw ''stream'' \<and> jump_prob row' = dict_get raw ''jump'' \<and>
            alt_prob row' = dict_get raw ''alt'' \<and> tech_prob row' = dict_get raw ''tech'')
       \<and> snd (get_oracle_analysis_results (Some [(''Stream'', 0.9)])) = ''stream''
       \<and> dict_get (normalize_probs [(''Stream'', 0.9)]) ''stream'' =
           Some (Finite (round_double 0.9))
       \<and> dict_get [(''Stream'', 0.9 :: real)] ''stream'' = None"
proof -
  have stored: "\<exists>row'. BeatmapAnalysis (snd (resolve_and_record env q br u bid d db)) bid = Some row' \<and>
            stream_prob row' = dict_get raw ''stream'' \<and> jump_prob row' = dict_get raw ''jump'' \<and>
            alt_prob row' = dict_get raw ''alt'' \<and> tech_prob row' = dict_get raw ''tech''"
  proof (cases "\<exists>row. BeatmapAnalysis db bid = Some row \<and> \<not> is_auto_typed row")
    case True
    then obtain row where row: "BeatmapAnalysis db bid = Some row" "\<not> is_auto_typed row"
      by blast
    show ?thesis
      unfolding resolve_manual [OF assms(1,2,3) row] Let_def
      by (simp add: manual_branch_analysis store_beatmap_analysis_probabilities_only_def
          row assms(4,6))
  next
    case False
    then have autoish: "check_fault env = NoConnection \<or> BeatmapAnalysis db bid = None \<or>
         (\<exists>row. BeatmapAnalysis db bid = Some row \<and> is_auto_typed row)"
      by (cases "BeatmapAnalysis db bid") auto
    have nq: "check_fault env \<noteq> QueryError"
      using assms(3) by simp
    show ?thesis
      unfolding resolve_auto [OF assms(1,2) nq autoish] Let_def
      using auto_branch_analysis [OF assms(5)] by (simp add: assms(6))
  qed
  have example: "snd (get_oracle_analysis_results (Some [(''Stream'', 0.9)])) = ''stream''
       \<and> dict_get (normalize_probs [(''Stream'', 0.9)]) ''stream'' =
           Some (Finite (round_double 0.9))
       \<and> dict_get [(''Stream'', 0.9 :: real)] ''stream'' = None"
    by (simp add: get_oracle_analysis_results_def dict_get_def normalize_defs)
  from stored example show ?thesis by blast
qed

theorem stored_probabilities_read_raw_keys_witness:
  "\<exists>row'. BeatmapAnalysis
            (snd (resolve_and_record (healthy_env (Some [(''Stream'', 0.9)])) 10 some_binding
                    None 42 ''d'' empty_store)) 42 = Some row' \<and>
          stream_prob row' = None"
proof -
  let ?env = "healthy_env (Some [(''Stream'', 0.9)])"
  have h1: "official_reply ?env = Some some_official"
    by (simp add: healthy_env_def)
  have h2: "some_official \<noteq> []"
    by (simp add: some_official_def)
  have h3: "check_fault ?env = DbOk" and h4: "probs_fault ?env = DbOk"
    and h5: "analysis_fault ?env = DbOk"
    by (simp_all add: healthy_env_def)
  have h6: "oracle_reply ?env = Some [(''Stream'', 0.9)]"
    by (simp add: healthy_env_def)
  show ?thesis
    using stored_probabilities_read_raw_keys [OF h1 h2 h3 h4 h5 h6,
        of 10 some_binding None 42 "''d''" empty_store]
    by (auto simp: dict_get_def)
qed

section \<open>Ambiguous and failed oracle replies\<close>

lemma upsert_pending_member:
  "\<exists>r \<in> set (upsert_pending new rs).
     pending_bid r = pending_bid new \<and> reason_for_pending r = reason_for_pending new"
  by (induction rs) auto

lemma store_analysis_pending [simp]:
  "PendingBeatmapReviews (store_beatmap_analysis f now bid probs t a db) = PendingBeatmapReviews db"
  by (simp add: store_beatmap_analysis_def Let_def split: option.splits)

lemma probabilities_only_pending [simp]:
  "PendingBeatmapReviews (store_beatmap_analysis_probabilities_only f now bid raw db) =
   PendingBeatmapReviews db"
  by (simp add: store_beatmap_analysis_probabilities_only_def split: option.splits)

lemma add_pending_analysis [simp]:
  "BeatmapAnalysis (add_to_pending_review f now bid reason rid db) = BeatmapAnalysis db"
  by (simp add: add_to_pending_review_def)

lemma recommendations_frame [simp]:
  "Recommendations (add_to_pending_review f now bid reason rid db) = Recommendations db"
  "Recommendations (store_beatmap_analysis f now bid probs t a db) = Recommendations db"
  "Recommendations (store_beatmap_analysis_probabilities_only f now bid raw db) =
     Recommendations db"
  by (simp_all add: add_to_pending_review_def store_beatmap_analysis_def
      store_beatmap_analysis_probabilities_only_def Let_def split: option.splits)

lemma store_recommendation_ok:
  "store_recommendation DbOk now q bid n u t d db =
     (Some (Suc (length (Recommendations db))),
      db\<lparr>Recommendations := Recommendations db @
           [\<lparr>recommendation_id = Suc (length (Recommendations db)), rec_qqid = q, rec_bid = bid,
             osu_username_at_recommend_time = n, user_requested_type = u,
             actual_recommend_type = t, recommendation_description = d,
             recommended_at = now\<rparr>]\<rparr>)"
  by (simp add: store_recommendation_def Let_def)

text \<open>What enqueuing leaves in the queue for the beatmap.\<close>

lemma add_pending_member:
  "\<exists>r \<in> set (PendingBeatmapReviews (add_to_pending_review DbOk now bid reason rid db)).
     pending_bid r = bid \<and> reason_for_pending r = reason"
  using upsert_pending_member
    [of "\<lparr>pending_bid = bid, reason_for_pending = reason,
          triggered_by_recommendation_id = rid, added_to_queue_at = now\<rparr>"
        "PendingBeatmapReviews db"]
  by (simp add: add_to_pending_review_def)

lemma add_pending_exact:
  assumes "distinct (map pending_bid (PendingBeatmapReviews db))"
  shows "filter (\<lambda>p. pending_bid p = bid)
           (PendingBeatmapReviews (add_to_pending_review DbOk now bid reason rid db)) =
         [\<lparr>pending_bid = bid, reason_for_pending = reason,
           triggered_by_recommendation_id = rid, added_to_queue_at = now\<rparr>]"
  using upsert_pending_same [OF assms,
      of "\<lparr>pending_bid = bid, reason_for_pending = reason,
           triggered_by_recommendation_id = rid, added_to_queue_at = now\<rparr>"]
  by (simp add: add_to_pending_review_def)

text \<open>The branch of lines 354--361 (no type asserted) and of lines 344--353.\<close>

lemma auto_branch_no_user_type:
  assumes "truthy_str u = None"
  shows "auto_branch env bid u reply ot db =
     (ot, ot,
      if falsy_dict reply then [OracleFailedProvisionalOthers] else [],
      store_beatmap_analysis (analysis_fault env) (clock env) bid reply ot True
        (if falsy_dict reply
         then add_to_pending_review (pending_fault env) (clock env) bid
                oracle_ambiguous_or_failed_no_user_type None db
         else if ot = ''others''
         then add_to_pending_review (pending_fault env) (clock env) bid
                oracle_ambiguous_result None db
         else db))"
  by (simp add: auto_branch_def assms Let_def)

lemma auto_branch_user_type:
  assumes "truthy_str u = Some ut"
  shows "auto_branch env bid u reply ot db =
     (ut, ut,
      if ot \<noteq> [] \<and> ut \<noteq> ot then [UserSetType ut, OracleDisagrees ot]
      else if falsy_dict reply then [UserSetType ut, OracleFailedWithUserType]
      else [UserSetType ut],
      store_beatmap_analysis (analysis_fault env) (clock env) bid reply ut True
        (if ot \<noteq> [] \<and> ut \<noteq> ot
         then add_to_pending_review (pending_fault env) (clock env) bid
                (mismatch_reason ut ot) None db
         else if falsy_dict reply
         then add_to_pending_review (pending_fault env) (clock env) bid
                oracle_failed_user_specified_type None db
         else db))"
  by (simp add: auto_branch_def assms Let_def)

text \<open>
  C6, as amended. No manual row was read, the caller asserted no type and the oracle
  returned a dictionary (the writes go through). If the dictionary is not empty and
  no normalised probability is greater than 0.5, the oracle's type is \<open>others\<close>,
  the recommendation is recorded as \<open>others\<close> with no message at all, and the queue
  has a row for the beatmap with the reason \<open>oracle_ambiguous_result\<close>, the only
  row for it when the queue had at most one row per beatmap. If the dictionary is
  empty, the type and the recorded type are \<open>others\<close> as well, but the message of
  line 358 is sent and the reason is \<open>oracle_ambiguous_or_failed_no_user_type\<close>, as
  after a failed call.
\<close>

theorem ambiguous_oracle_without_user_type:
  assumes "official_reply env = Some info" and "info \<noteq> []"
    and "check_fault env = DbOk" and "pending_fault env = DbOk"
    and "recommendation_fault env = DbOk"
    and "BeatmapAnalysis db bid = None \<or>
         (\<exists>row. BeatmapAnalysis db bid = Some row \<and> is_auto_typed row)"
    and "truthy_str u = None"
    and "oracle_reply env = Some raw"
  shows "(raw \<noteq> [] \<and> (\<forall>(t, p) \<in> set (normalize_probs raw). \<not> float_gt p 0.5) \<longrightarrow>
           snd (get_oracle_analysis_results (oracle_reply env)) = ''others'' \<and>
           (\<exists>r. fst (resolve_and_record env q br u bid d db) = Recorded r \<and>
                additional_messages r = [] \<and> reply_recommend_type r = ''others'') \<and>
           (\<exists>p \<in> set (PendingBeatmapReviews (snd (resolve_and_record env q br u bid d db))).
                pending_bid p = bid \<and> reason_for_pending p = oracle_ambiguous_result) \<and>
           (distinct (map pending_bid (PendingBeatmapReviews db)) \<longrightarrow>
              filter (\<lambda>p. pending_bid p = bid)
                (PendingBeatmapReviews (snd (resolve_and_record env q br u bid d db))) =
              [\<lparr>pending_bid = bid, reason_for_pending = oracle_ambiguous_result,
                triggered_by_recommendation_id = None, added_to_queue_at = clock env\<rparr>]))
       \<and> (raw = [] \<longrightarrow>
           snd (get_oracle_analysis_results (oracle_reply env)) = ''others'' \<and>
           (\<exists>r. fst (resolve_and_record env q br u bid d db) = Recorded r \<and>
                additional_messages r = [OracleFailedProvisionalOthers] \<and>
                reply_recommend_type r = ''others'') \<and>
           (\<exists>p \<in> set (PendingBeatmapReviews (snd (resolve_and_record env q br u bid d db))).
                pending_bid p = bid \<and>
                reason_for_pending p = oracle_ambiguous_or_failed_no_user_type) \<and>
           (distinct (map pending_bid (PendingBeatmapReviews db)) \<longrightarrow>
              filter (\<lambda>p. pending_bid p = bid)
                (PendingBeatmapReviews (snd (resolve_and_record env q br u bid d db))) =
              [\<lparr>pending_bid = bid,
                reason_for_pending = oracle_ambiguous_or_failed_no_user_type,
                triggered_by_recommendation_id = None, added_to_queue_at = clock env\<rparr>]))"
proof -
  let ?db1 = "snd (fetch_and_store_beatmap_info (official_reply env) (info_fault env) bid db)"
  have nq: "check_fault env \<noteq> QueryError"
    using assms(3) by simp
  have autoish: "check_fault env = NoConnection \<or> BeatmapAnalysis db bid = None \<or>
         (\<exists>row. BeatmapAnalysis db bid = Some row \<and> is_auto_typed row)"
    using assms(6) by blast
  note shape = resolve_auto [OF assms(1,2) nq autoish, of q br u d]
  have q1: "PendingBeatmapReviews ?db1 = PendingBeatmapReviews db"
    by simp
  have ambiguous: ?thesis if ne: "raw \<noteq> []"
    and low: "\<forall>(t, p) \<in> set (normalize_probs raw). \<not> float_gt p 0.5"
  proof -
    have ot: "snd (get_oracle_analysis_results (Some raw)) = ''others''"
      using determine_type_none [OF low] oracle_type_is_determine_type [of raw] by simp
    have nf: "\<not> falsy_dict (Some raw)"
      using ne by (simp add: falsy_dict_def)
    have member: "\<exists>p \<in> set (PendingBeatmapReviews
          (add_to_pending_review DbOk (clock env) bid oracle_ambiguous_result None ?db1)).
        pending_bid p = bid \<and> reason_for_pending p = oracle_ambiguous_result"
      by (rule add_pending_member)
    have exact: "filter (\<lambda>p. pending_bid p = bid) (PendingBeatmapReviews
          (add_to_pending_review DbOk (clock env) bid oracle_ambiguous_result None ?db1)) =
        [\<lparr>pending_bid = bid, reason_for_pending = oracle_ambiguous_result,
          triggered_by_recommendation_id = None, added_to_queue_at = clock env\<rparr>]"
      if "distinct (map pending_bid (PendingBeatmapReviews db))"
      using that add_pending_exact [of ?db1] q1 by simp
    show ?thesis
      unfolding shape Let_def
      using member exact ne
      by (simp add: assms(4,5,8) ot nf store_recommendation_ok
          auto_branch_no_user_type [OF assms(7)])
  qed
  have empty: ?thesis if e: "raw = []"
  proof -
    have ot: "snd (get_oracle_analysis_results (Some [])) = ''others''"
      by (simp add: get_oracle_analysis_results_def)
    have f: "falsy_dict (Some ([] :: real pydict))"
      by (simp add: falsy_dict_def)
    have member: "\<exists>p \<in> set (PendingBeatmapReviews
          (add_to_pending_review DbOk (clock env) bid oracle_ambiguous_or_failed_no_user_type
             None ?db1)).
        pending_bid p = bid \<and> reason_for_pending p = oracle_ambiguous_or_failed_no_user_type"
      by (rule add_pending_member)
    have exact: "filter (\<lambda>p. pending_bid p = bid) (PendingBeatmapReviews
          (add_to_pending_review DbOk (clock env) bid oracle_ambiguous_or_failed_no_user_type
             None ?db1)) =
        [\<lparr>pending_bid = bid, reason_for_pending = oracle_ambiguous_or_failed_no_user_type,
          triggered_by_recommendation_id = None, added_to_queue_at = clock env\<rparr>]"
      if "distinct (map pending_bid (PendingBeatmapReviews db))"
      using that add_pending_exact [of ?db1] q1 by simp
    show ?thesis
      unfolding shape Let_def
      using member exact e
      by (simp add: assms(4,5,8) ot f store_recommendation_ok
          auto_branch_no_user_type [OF assms(7)])
  qed
  show ?thesis
    using ambiguous empty by blast
qed

theorem ambiguous_oracle_without_user_type_witness:
  "(\<exists>r. fst (resolve_and_record (healthy_env (Some [(''stream'', 0.4), (''jump'', 0.3)])) 10
              some_binding None 42 ''d'' empty_store) = Recorded r \<and>
        additional_messages r = [] \<and> reply_recommend_type r = ''others'')
   \<and> filter (\<lambda>p. pending_bid p = 42)
         (PendingBeatmapReviews
            (snd (resolve_and_record (healthy_env (Some [(''stream'', 0.4), (''jump'', 0.3)])) 10
                    some_binding None 42 ''d'' empty_store))) =
       [\<lparr>pending_bid = 42, reason_for_pending = oracle_ambiguous_result,
         triggered_by_recommendation_id = None, added_to_queue_at = 100\<rparr>]
   \<and> (\<exists>r. fst (resolve_and_record (healthy_env (Some [])) 10 some_binding None 42 ''d''
                 empty_store) = Recorded r \<and>
           additional_messages r = [OracleFailedProvisionalOthers] \<and>
           reply_recommend_type r = ''others'')
   \<and> filter (\<lambda>p. pending_bid p = 42)
         (PendingBeatmapReviews
            (snd (resolve_and_record (healthy_env (Some [])) 10 some_binding None 42 ''d''
                    empty_store))) =
       [\<lparr>pending_bid = 42, reason_for_pending = oracle_ambiguous_or_failed_no_user_type,
         triggered_by_recommendation_id = None, added_to_queue_at = 100\<rparr>]"
proof -
  let ?raw = "[(''stream'', 0.4), (''jump'', 0.3)] :: real pydict"
  have h1: "official_reply (healthy_env r) = Some some_official" for r
    by (simp add: healthy_env_def)
  have h2: "some_official \<noteq> []"
    by (simp add: some_official_def)
  have h3: "check_fault (healthy_env r) = DbOk" and h4: "pending_fault (healthy_env r) = DbOk"
    and h5: "recommendation_fault (healthy_env r) = DbOk" for r
    by (simp_all add: healthy_env_def)
  have h6: "BeatmapAnalysis empty_store 42 = None \<or>
      (\<exists>row. BeatmapAnalysis empty_store 42 = Some row \<and> is_auto_typed row)"
    by (simp add: empty_store_def)
  have h7: "truthy_str None = None"
    by (simp add: truthy_str_def)
  have h8: "oracle_reply (healthy_env (Some r)) = Some r" for r
    by (simp add: healthy_env_def)
  have low: "\<forall>(t, p) \<in> set (normalize_probs ?raw). \<not> float_gt p 0.5"
    by (simp add: normalize_defs)
  have key: "distinct (map pending_bid (PendingBeatmapReviews empty_store))"
    by (simp add: empty_store_def)
  have now: "clock (healthy_env r) = 100" for r
    by (simp add: healthy_env_def)
  show ?thesis
    using low key
      ambiguous_oracle_without_user_type
        [where q = 10 and br = some_binding and d = "''d''",
          OF h1 h2 h3 h4 h5 h6 h7 h8 [of ?raw]]
      ambiguous_oracle_without_user_type
        [where q = 10 and br = some_binding and d = "''d''",
          OF h1 h2 h3 h4 h5 h6 h7 h8 [of "[]"]]
    by (simp add: now)
qed

text \<open>
  C6 as stated fails when the oracle ran and returned the empty dictionary: the test
  of line 357 is \<open>not raw_oracle_probabilities\<close>, which the empty dictionary
  satisfies, so the message of line 358 is sent and the reason is
  \<open>oracle_ambiguous_or_failed_no_user_type\<close>.
\<close>

theorem empty_oracle_reply_is_treated_as_failure:
  "fst (handle_recommend_command (healthy_env (Some [])) 10 None (Some 42) ''d'' empty_store) =
     Recorded \<lparr>final_determined_b_type_for_db = ''others'', reply_recommend_type = ''others'',
               additional_messages = [OracleFailedProvisionalOthers],
               reply_recommendation_id = 1\<rparr>
   \<and> PendingBeatmapReviews
        (snd (handle_recommend_command (healthy_env (Some [])) 10 None (Some 42) ''d''
               empty_store)) =
       [\<lparr>pending_bid = 42, reason_for_pending = oracle_ambiguous_or_failed_no_user_type,
         triggered_by_recommendation_id = None, added_to_queue_at = 100\<rparr>]
   \<and> oracle_ambiguous_or_failed_no_user_type \<noteq> oracle_ambiguous_result"
  by (simp add: handler_defs example_defs Let_def oracle_ambiguous_or_failed_no_user_type_def
      oracle_ambiguous_result_def)

text \<open>
  C7 as stated fails on a manual row: the oracle call fails for beatmap 42 of
  \<open>manual_store\<close>, the recommendation is recorded, and the queue stays empty, since
  the branch of lines 331--342 never enqueues.
\<close>

theorem failed_oracle_on_manual_row_not_queued:
  "fst (handle_recommend_command (healthy_env None) 10 None (Some 42) ''d'' manual_store) =
     Recorded \<lparr>final_determined_b_type_for_db = ''tech'', reply_recommend_type = ''tech'',
               additional_messages = [], reply_recommendation_id = 1\<rparr>
   \<and> PendingBeatmapReviews
        (snd (handle_recommend_command (healthy_env None) 10 None (Some 42) ''d''
               manual_store)) = []"
  by (simp add: handler_defs example_defs Let_def)

lemma metadata_unavailable_iff:
  "fst (resolve_and_record env q br u bid d db) = MetadataUnavailable \<longleftrightarrow>
   falsy_dict (official_reply env)"
  unfolding resolve_and_record_def Let_def split_beta
  by (auto simp: falsy_dict_def fetch_and_store_beatmap_info_def split: option.splits)

lemma metadata_unavailable_store:
  "falsy_dict (official_reply env) \<Longrightarrow> snd (resolve_and_record env q br u bid d db) = db"
  unfolding resolve_and_record_def Let_def split_beta
  by (auto simp: falsy_dict_def fetch_and_store_beatmap_info_def split: option.splits)

text \<open>The row \<open>store_beatmap_analysis\<close> leaves when it is given no probabilities.\<close>

lemma store_analysis_without_probabilities:
  assumes "BeatmapAnalysis db bid = None \<or>
           (\<exists>row. BeatmapAnalysis db bid = Some row \<and> is_auto_typed row)"
  shows "\<exists>row'. BeatmapAnalysis (store_beatmap_analysis DbOk now bid None t True db) bid =
           Some row' \<and>
         determined_b_type row' = t \<and> is_auto_typed row' \<and>
         stream_prob row' = None \<and> jump_prob row' = None \<and> alt_prob row' = None \<and>
         tech_prob row' = None \<and> oracle_last_run_at row' = None"
  using assms
  by (auto simp: store_beatmap_analysis_def Let_def dict_get_def split: option.splits)

text \<open>The reason given to the queue after a failed oracle call, where it is by design.\<close>

lemma auto_branch_failed_oracle_queue:
  assumes "pending_fault env = DbOk"
  shows "\<exists>p \<in> set (PendingBeatmapReviews
                  (snd (snd (snd (auto_branch env bid u None ''others'' db))))).
           pending_bid p = bid \<and>
           (truthy_str u = None \<longrightarrow>
              reason_for_pending p = oracle_ambiguous_or_failed_no_user_type) \<and>
           (truthy_str u = Some ''others'' \<longrightarrow>
              reason_for_pending p = oracle_failed_user_specified_type)"
proof (cases "truthy_str u")
  case None
  then show ?thesis
    using add_pending_member [of "clock env" bid oracle_ambiguous_or_failed_no_user_type None db]
    by (simp add: auto_branch_no_user_type falsy_dict_def assms)
next
  case (Some ut)
  show ?thesis
  proof (cases "ut = ''others''")
    case True
    with Some show ?thesis
      using add_pending_member [of "clock env" bid oracle_failed_user_specified_type None db]
      by (simp add: auto_branch_user_type falsy_dict_def assms)
  next
    case False
    with Some show ?thesis
      using add_pending_member [of "clock env" bid "mismatch_reason ut ''others''" None db]
      by (auto simp: auto_branch_user_type falsy_dict_def assms)
  qed
qed

lemma auto_branch_types:
  "fst (auto_branch env bid u reply ot db) =
     (case truthy_str u of Some ut \<Rightarrow> ut | None \<Rightarrow> ot)"
  "fst (snd (auto_branch env bid u reply ot db)) =
     (case truthy_str u of Some ut \<Rightarrow> ut | None \<Rightarrow> ot)"
  by (cases "truthy_str u"; simp add: auto_branch_no_user_type auto_branch_user_type)+

lemma auto_branch_failed_oracle_row:
  assumes "analysis_fault env = DbOk"
    and "BeatmapAnalysis db bid = None \<or>
         (\<exists>row. BeatmapAnalysis db bid = Some row \<and> is_auto_typed row)"
  shows "\<exists>row'. BeatmapAnalysis (snd (snd (snd (auto_branch env bid u None ''others'' db)))) bid =
           Some row' \<and>
         determined_b_type row' = (case truthy_str u of Some ut \<Rightarrow> ut | None \<Rightarrow> ''others'') \<and>
         is_auto_typed row' \<and>
         stream_prob row' = None \<and> jump_prob row' = None \<and> alt_prob row' = None \<and>
         tech_prob row' = None \<and> oracle_last_run_at row' = None"
proof (cases "truthy_str u")
  case None
  have "BeatmapAnalysis (add_to_pending_review (pending_fault env) (clock env) bid
          oracle_ambiguous_or_failed_no_user_type None db) bid = None \<or>
        (\<exists>row. BeatmapAnalysis (add_to_pending_review (pending_fault env) (clock env) bid
          oracle_ambiguous_or_failed_no_user_type None db) bid = Some row \<and> is_auto_typed row)"
    using assms(2) by simp
  from store_analysis_without_probabilities [OF this, of "clock env" "''others''"] None
  show ?thesis
    by (simp add: auto_branch_no_user_type falsy_dict_def assms(1))
next
  case (Some ut)
  let ?q = "if ut \<noteq> ''others''
         then add_to_pending_review (pending_fault env) (clock env) bid
                (mismatch_reason ut ''others'') None db
         else add_to_pending_review (pending_fault env) (clock env) bid
                oracle_failed_user_specified_type None db"
  have "BeatmapAnalysis ?q bid = None \<or>
        (\<exists>row. BeatmapAnalysis ?q bid = Some row \<and> is_auto_typed row)"
    using assms(2) by simp
  from store_analysis_without_probabilities [OF this, of "clock env" ut] Some
  show ?thesis
    by (auto simp: auto_branch_user_type falsy_dict_def assms(1) split: if_splits)
qed

lemma manual_branch_types:
  "fst (manual_branch env bid u reply t db) = t"
  "fst (snd (manual_branch env bid u reply t db)) =
     (case truthy_str u of Some ut \<Rightarrow> ut | None \<Rightarrow> t)"
  by (simp_all add: manual_branch_def Let_def split_beta split: option.splits)

lemma auto_branch_recommendations [simp]:
  "Recommendations (snd (snd (snd (auto_branch env bid u reply ot db)))) = Recommendations db"
  by (cases "truthy_str u"; simp add: auto_branch_no_user_type auto_branch_user_type)

lemma manual_branch_recommendations [simp]:
  "Recommendations (snd (snd (snd (manual_branch env bid u reply t db)))) = Recommendations db"
  unfolding manual_branch_def split_beta by (simp add: Let_def split: option.splits)

text \<open>
  C7, as amended. The handler ends with the message that the official information is
  missing exactly when the reply of the metadata service is \<open>None\<close> or empty, and
  then the store is untouched. A failed oracle call is taken as no probabilities and
  the type \<open>others\<close>, and the handler goes on (the \<open>SELECT\<close> and the \<open>INSERT\<close> of the
  recommendation going through). If no manual row was read, the recommendation is
  recorded with the asserted type, or with \<open>others\<close> when none was asserted; the
  beatmap gets a queue row (with the reason
  \<open>oracle_ambiguous_or_failed_no_user_type\<close> when no type was asserted and
  \<open>oracle_failed_user_specified_type\<close> when \<open>others\<close> was); and the analysis row
  written is automatic, of that same type, with no probabilities and no run time. If
  a manual row was read, the recommendation is recorded with the asserted type, or
  with the row's type when none was asserted, and both the analysis table and the
  queue are left as they were.
\<close>

theorem metadata_failure_aborts_oracle_failure_does_not:
  "(fst (resolve_and_record env q br u bid d db) = MetadataUnavailable \<longleftrightarrow>
      falsy_dict (official_reply env))
   \<and> (falsy_dict (official_reply env) \<longrightarrow> snd (resolve_and_record env q br u bid d db) = db)
   \<and> get_oracle_analysis_results None = (None, ''others'')
   \<and> (\<not> falsy_dict (official_reply env) \<and> oracle_reply env = None \<and>
       check_fault env = DbOk \<and> recommendation_fault env = DbOk \<longrightarrow>
        (BeatmapAnalysis db bid = None \<or>
         (\<exists>row. BeatmapAnalysis db bid = Some row \<and> is_auto_typed row) \<longrightarrow>
           (\<exists>r. fst (resolve_and_record env q br u bid d db) = Recorded r \<and>
                reply_recommend_type r =
                  (case truthy_str u of Some ut \<Rightarrow> ut | None \<Rightarrow> ''others'')) \<and>
           Recommendations (snd (resolve_and_record env q br u bid d db)) =
             Recommendations db @
             [\<lparr>recommendation_id = Suc (length (Recommendations db)), rec_qqid = q,
               rec_bid = bid, osu_username_at_recommend_time = osu_username_at_bind br,
               user_requested_type = u,
               actual_recommend_type =
                 (case truthy_str u of Some ut \<Rightarrow> ut | None \<Rightarrow> ''others''),
               recommendation_description = d, recommended_at = clock env\<rparr>] \<and>
           (pending_fault env = DbOk \<longrightarrow>
              (\<exists>p \<in> set (PendingBeatmapReviews (snd (resolve_and_record env q br u bid d db))).
                 pending_bid p = bid \<and>
                 (truthy_str u = None \<longrightarrow>
                    reason_for_pending p = oracle_ambiguous_or_failed_no_user_type) \<and>
                 (truthy_str u = Some ''others'' \<longrightarrow>
                    reason_for_pending p = oracle_failed_user_specified_type))) \<and>
           (analysis_fault env = DbOk \<longrightarrow>
              (\<exists>row'. BeatmapAnalysis (snd (resolve_and_record env q br u bid d db)) bid =
                        Some row' \<and>
                 determined_b_type row' =
                   (case truthy_str u of Some ut \<Rightarrow> ut | None \<Rightarrow> ''others'') \<and>
                 is_auto_typed row' \<and>
                 stream_prob row' = None \<and> jump_prob row' = None \<and>
                 alt_prob row' = None \<and> tech_prob row' = None \<and>
                 oracle_last_run_at row' = None))) \<and>
        (\<forall>row. BeatmapAnalysis db bid = Some row \<and> \<not> is_auto_typed row \<longrightarrow>
           (\<exists>r. fst (resolve_and_record env q br u bid d db) = Recorded r \<and>
                reply_recommend_type r =
                  (case truthy_str u of Some ut \<Rightarrow> ut | None \<Rightarrow> determined_b_type row)) \<and>
           Recommendations (snd (resolve_and_record env q br u bid d db)) =
             Recommendations db @
             [\<lparr>recommendation_id = Suc (length (Recommendations db)), rec_qqid = q,
               rec_bid = bid, osu_username_at_recommend_time = osu_username_at_bind br,
               user_requested_type = u,
               actual_recommend_type =
                 (case truthy_str u of Some ut \<Rightarrow> ut | None \<Rightarrow> determined_b_type row),
               recommendation_description = d, recommended_at = clock env\<rparr>] \<and>
           BeatmapAnalysis (snd (resolve_and_record env q br u bid d db)) =
             BeatmapAnalysis db \<and>
           PendingBeatmapReviews (snd (resolve_and_record env q br u bid d db)) =
             PendingBeatmapReviews db))"
proof -
  let ?R = "resolve_and_record env q br u bid d db"
  let ?db1 = "snd (fetch_and_store_beatmap_info (official_reply env) (info_fault env) bid db)"
  have absent: "get_oracle_analysis_results None = (None, ''others'')"
    by (simp add: get_oracle_analysis_results_def)
  have run: "(BeatmapAnalysis db bid = None \<or>
         (\<exists>row. BeatmapAnalysis db bid = Some row \<and> is_auto_typed row) \<longrightarrow>
           (\<exists>r. fst ?R = Recorded r \<and>
                reply_recommend_type r =
                  (case truthy_str u of Some ut \<Rightarrow> ut | None \<Rightarrow> ''others'')) \<and>
           Recommendations (snd ?R) =
             Recommendations db @
             [\<lparr>recommendation_id = Suc (length (Recommendations db)), rec_qqid = q,
               rec_bid = bid, osu_username_at_recommend_time = osu_username_at_bind br,
               user_requested_type = u,
               actual_recommend_type =
                 (case truthy_str u of Some ut \<Rightarrow> ut | None \<Rightarrow> ''others''),
               recommendation_description = d, recommended_at = clock env\<rparr>] \<and>
           (pending_fault env = DbOk \<longrightarrow>
              (\<exists>p \<in> set (PendingBeatmapReviews (snd ?R)).
                 pending_bid p = bid \<and>
                 (truthy_str u = None \<longrightarrow>
                    reason_for_pending p = oracle_ambiguous_or_failed_no_user_type) \<and>
                 (truthy_str u = Some ''others'' \<longrightarrow>
                    reason_for_pending p = oracle_failed_user_specified_type))) \<and>
           (analysis_fault env = DbOk \<longrightarrow>
              (\<exists>row'. BeatmapAnalysis (snd ?R) bid = Some row' \<and>
                 determined_b_type row' =
                   (case truthy_str u of Some ut \<Rightarrow> ut | None \<Rightarrow> ''others'') \<and>
                 is_auto_typed row' \<and>
                 stream_prob row' = None \<and> jump_prob row' = None \<and>
                 alt_prob row' = None \<and> tech_prob row' = None \<and>
                 oracle_last_run_at row' = None))) \<and>
        (\<forall>row. BeatmapAnalysis db bid = Some row \<and> \<not> is_auto_typed row \<longrightarrow>
           (\<exists>r. fst ?R = Recorded r \<and>
                reply_recommend_type r =
                  (case truthy_str u of Some ut \<Rightarrow> ut | None \<Rightarrow> determined_b_type row)) \<and>
           Recommendations (snd ?R) =
             Recommendations db @
             [\<lparr>recommendation_id = Suc (length (Recommendations db)), rec_qqid = q,
               rec_bid = bid, osu_username_at_recommend_time = osu_username_at_bind br,
               user_requested_type = u,
               actual_recommend_type =
                 (case truthy_str u of Some ut \<Rightarrow> ut | None \<Rightarrow> determined_b_type row),
               recommendation_description = d, recommended_at = clock env\<rparr>] \<and>
           BeatmapAnalysis (snd ?R) = BeatmapAnalysis db \<and>
           PendingBeatmapReviews (snd ?R) = PendingBeatmapReviews db)"
    if ok: "\<not> falsy_dict (official_reply env)" and failed: "oracle_reply env = None"
      and chk: "check_fault env = DbOk" and rf: "recommendation_fault env = DbOk"
  proof -
    from ok obtain info where info: "official_reply env = Some info" "info \<noteq> []"
      by (auto simp: falsy_dict_def split: option.splits)
    have nq: "check_fault env \<noteq> QueryError"
      using chk by simp
    show ?thesis
    proof (cases "\<exists>row. BeatmapAnalysis db bid = Some row \<and> \<not> is_auto_typed row")
      case True
      then obtain row where row: "BeatmapAnalysis db bid = Some row" "\<not> is_auto_typed row"
        by blast
      show ?thesis
        unfolding resolve_manual [OF info chk row] Let_def
        by (simp add: rf failed store_recommendation_ok row manual_branch_types
            manual_branch_analysis)
    next
      case False
      then have caseA: "BeatmapAnalysis db bid = None \<or>
           (\<exists>row. BeatmapAnalysis db bid = Some row \<and> is_auto_typed row)"
        by (cases "BeatmapAnalysis db bid") auto
      then have autoish: "check_fault env = NoConnection \<or> BeatmapAnalysis db bid = None \<or>
           (\<exists>row. BeatmapAnalysis db bid = Some row \<and> is_auto_typed row)"
        by blast
      have caseA1: "BeatmapAnalysis ?db1 bid = None \<or>
           (\<exists>row. BeatmapAnalysis ?db1 bid = Some row \<and> is_auto_typed row)"
        using caseA by simp
      have queued: "pending_fault env = DbOk \<Longrightarrow>
          \<exists>p \<in> set (PendingBeatmapReviews
                  (snd (snd (snd (auto_branch env bid u None ''others'' ?db1))))).
            pending_bid p = bid \<and>
            (truthy_str u = None \<longrightarrow>
               reason_for_pending p = oracle_ambiguous_or_failed_no_user_type) \<and>
            (truthy_str u = Some ''others'' \<longrightarrow>
               reason_for_pending p = oracle_failed_user_specified_type)"
        by (rule auto_branch_failed_oracle_queue)
      have stored: "analysis_fault env = DbOk \<Longrightarrow>
          \<exists>row'. BeatmapAnalysis (snd (snd (snd (auto_branch env bid u None ''others'' ?db1))))
                    bid = Some row' \<and>
            determined_b_type row' =
              (case truthy_str u of Some ut \<Rightarrow> ut | None \<Rightarrow> ''others'') \<and>
            is_auto_typed row' \<and>
            stream_prob row' = None \<and> jump_prob row' = None \<and> alt_prob row' = None \<and>
            tech_prob row' = None \<and> oracle_last_run_at row' = None"
        using auto_branch_failed_oracle_row [OF _ caseA1] by blast
      show ?thesis
        unfolding resolve_auto [OF info nq autoish] Let_def
        using False queued stored
        by (auto simp: rf failed store_recommendation_ok auto_branch_types)
    qed
  qed
  show ?thesis
    using metadata_unavailable_iff [of env q br u bid d db]
      metadata_unavailable_store [of env q br u bid d db] absent run
    by blast
qed

theorem metadata_failure_aborts_oracle_failure_does_not_witness:
  "fst (resolve_and_record ((healthy_env None)\<lparr>official_reply := None\<rparr>) 10 some_binding None 42
          ''d'' empty_store) = MetadataUnavailable
   \<and> (\<exists>r. fst (resolve_and_record (healthy_env None) 10 some_binding None 42 ''d''
                 empty_store) = Recorded r \<and> reply_recommend_type r = ''others'')
   \<and> (\<exists>p \<in> set (PendingBeatmapReviews
                   (snd (resolve_and_record (healthy_env None) 10 some_binding None 42 ''d''
                           empty_store))).
          pending_bid p = 42 \<and> reason_for_pending p = oracle_ambiguous_or_failed_no_user_type)
   \<and> (\<exists>r. fst (resolve_and_record (healthy_env None) 10 some_binding None 42 ''d''
                 manual_store) = Recorded r \<and> reply_recommend_type r = ''tech'')
   \<and> PendingBeatmapReviews
         (snd (resolve_and_record (healthy_env None) 10 some_binding None 42 ''d''
                 manual_store)) = []"
  using metadata_failure_aborts_oracle_failure_does_not
      [of "(healthy_env None)\<lparr>official_reply := None\<rparr>" 10 some_binding None 42 "''d''"
        empty_store]
    metadata_failure_aborts_oracle_failure_does_not
      [of "healthy_env None" 10 some_binding None 42 "''d''" empty_store]
    metadata_failure_aborts_oracle_failure_does_not
      [of "healthy_env None" 10 some_binding None 42 "''d''" manual_store]
  by (simp add: healthy_env_def falsy_dict_def some_official_def empty_store_def
      manual_store_def tech_row_def truthy_str_def)

end
